theory Spec2Isabelle
  imports Main "HOL-Library.Word" "HOL-Library.Monad_Syntax"
begin

section \<open>JavaScript strings\<close>

text \<open>
  The plugin is TypeScript. A JavaScript string is a sequence of UTF-16 code units, and
  \<^verbatim>\<open>charCodeAt\<close>, \<^verbatim>\<open>length\<close>, \<^verbatim>\<open>slice\<close>, \<^verbatim>\<open>split\<close> and the regular expressions of
  \<^verbatim>\<open>src/main.ts\<close> (none has the \<^verbatim>\<open>u\<close> flag) all work on code units. A string is therefore
  a list of code units, each a natural number; \<open>js\<close> turns an ASCII literal into one.
\<close>

type_synonym jsstring = "nat list"

definition js :: "string \<Rightarrow> jsstring" where
  "js s = map of_char s"

definition startsWith :: "jsstring \<Rightarrow> jsstring \<Rightarrow> bool" where
  "startsWith s p = (take (length p) s = p)"

fun includes_str :: "jsstring \<Rightarrow> jsstring \<Rightarrow> bool" where
  "includes_str [] p = (p = [])"
| "includes_str (c # s) p = (startsWith (c # s) p \<or> includes_str s p)"

text \<open>\<^verbatim>\<open>s.split('?')[0]\<close>: the part of \<open>s\<close> before its first question mark.\<close>

definition before_query :: "jsstring \<Rightarrow> jsstring" where
  "before_query s = takeWhile (\<lambda>c. c \<noteq> 63) s"

text \<open>The white space and line terminators that \<^verbatim>\<open>trim\<close> and \<^verbatim>\<open>parseInt\<close> skip.\<close>

definition line_terminator :: "nat \<Rightarrow> bool" where
  "line_terminator c = (c = 10 \<or> c = 13 \<or> c = 0x2028 \<or> c = 0x2029)"

definition white_space :: "nat \<Rightarrow> bool" where
  "white_space c =
     (c = 9 \<or> c = 11 \<or> c = 12 \<or> c = 32 \<or> c = 0xA0 \<or> c = 0x1680 \<or> (0x2000 \<le> c \<and> c \<le> 0x200A)
      \<or> c = 0x202F \<or> c = 0x205F \<or> c = 0x3000 \<or> c = 0xFEFF \<or> line_terminator c)"

definition trim :: "jsstring \<Rightarrow> jsstring" where
  "trim s = rev (dropWhile white_space (rev (dropWhile white_space s)))"

definition is_digit :: "nat \<Rightarrow> bool" where
  "is_digit c = (48 \<le> c \<and> c \<le> 57)"

definition is_lower :: "nat \<Rightarrow> bool" where
  "is_lower c = (97 \<le> c \<and> c \<le> 122)"

definition is_upper :: "nat \<Rightarrow> bool" where
  "is_upper c = (65 \<le> c \<and> c \<le> 90)"

subsection \<open>Numbers as text\<close>

text \<open>
  \<^verbatim>\<open>Number.prototype.toString(radix)\<close> on a non-negative integer, for the radices the
  plugin uses (10 in string concatenation and template literals, 36 in the key).
\<close>

definition digit_char :: "nat \<Rightarrow> nat" where
  "digit_char d = (if d < 10 then 48 + d else 87 + d)"

fun toString_radix :: "nat \<Rightarrow> nat \<Rightarrow> jsstring" where
  "toString_radix r n =
     (if r < 2 \<or> n < r then [digit_char n]
      else toString_radix r (n div r) @ [digit_char (n mod r)])"

declare toString_radix.simps [simp del]

subsection \<open>decodeURIComponent and encodeURIComponent\<close>

text \<open>
  Both are built-in functions of the language, modelled from ECMA-262 (\<^verbatim>\<open>Decode\<close> and
  \<^verbatim>\<open>Encode\<close>). \<open>None\<close> is the \<^verbatim>\<open>URIError\<close> they throw. Decoding reads each
  \<^verbatim>\<open>%XX\<close> escape as an octet; an octet below 128 is a character, a larger one starts a
  UTF-8 sequence whose continuation octets must be escapes too and which must encode a
  code point (no overlong form, no surrogate, at most \<^verbatim>\<open>0x10FFFF\<close>).
\<close>

definition hex_value :: "nat \<Rightarrow> nat option" where
  "hex_value c =
     (if is_digit c then Some (c - 48)
      else if 65 \<le> c \<and> c \<le> 70 then Some (c - 55)
      else if 97 \<le> c \<and> c \<le> 102 then Some (c - 87)
      else None)"

definition hex_octet :: "nat \<Rightarrow> nat \<Rightarrow> nat option" where
  "hex_octet h l =
     (case (hex_value h, hex_value l) of (Some a, Some b) \<Rightarrow> Some (16 * a + b) | _ \<Rightarrow> None)"

datatype uri_token = Unit nat | Octet nat

fun uri_tokens :: "jsstring \<Rightarrow> uri_token list option" where
  "uri_tokens [] = Some []"
| "uri_tokens (c # s) =
     (if c \<noteq> 37 then map_option ((#) (Unit c)) (uri_tokens s)
      else (case s of
              h # l # rest \<Rightarrow>
                (case hex_octet h l of
                   None \<Rightarrow> None
                 | Some b \<Rightarrow> map_option ((#) (Octet b)) (uri_tokens rest))
            | _ \<Rightarrow> None))"

definition utf16_units :: "nat \<Rightarrow> jsstring" where
  "utf16_units v =
     (if v < 0x10000 then [v]
      else [0xD800 + (v - 0x10000) div 1024, 0xDC00 + (v - 0x10000) mod 1024])"

definition continuation :: "uri_token \<Rightarrow> nat option" where
  "continuation t =
     (case t of Octet b \<Rightarrow> (if 128 \<le> b \<and> b < 192 then Some (b - 128) else None)
              | Unit c \<Rightarrow> None)"

text \<open>The code point of a UTF-8 sequence, from its first octet and the continuation tokens.\<close>

definition utf8_code_point :: "nat \<Rightarrow> uri_token list \<Rightarrow> nat option" where
  "utf8_code_point b ts =
     (case map continuation ts of
        [Some x] \<Rightarrow>
          (let v = (b - 192) * 64 + x in if 0x80 \<le> v then Some v else None)
      | [Some x, Some y] \<Rightarrow>
          (let v = (b - 224) * 4096 + x * 64 + y
           in if 0x800 \<le> v \<and> \<not> (0xD800 \<le> v \<and> v \<le> 0xDFFF) then Some v else None)
      | [Some x, Some y, Some z] \<Rightarrow>
          (let v = (b - 240) * 262144 + x * 4096 + y * 64 + z
           in if 0x10000 \<le> v \<and> v \<le> 0x10FFFF then Some v else None)
      | _ \<Rightarrow> None)"

definition sequence_length :: "nat \<Rightarrow> nat option" where
  "sequence_length b =
     (if 192 \<le> b \<and> b < 224 then Some 2
      else if 224 \<le> b \<and> b < 240 then Some 3
      else if 240 \<le> b \<and> b < 248 then Some 4
      else None)"

function uri_assemble :: "uri_token list \<Rightarrow> jsstring option" where
  "uri_assemble [] = Some []"
| "uri_assemble (Unit c # ts) = map_option ((#) c) (uri_assemble ts)"
| "uri_assemble (Octet b # ts) =
     (if b < 128 then map_option ((#) b) (uri_assemble ts)
      else (case sequence_length b of
              None \<Rightarrow> None
            | Some n \<Rightarrow>
                (if length ts < n - 1 then None
                 else (case utf8_code_point b (take (n - 1) ts) of
                         None \<Rightarrow> None
                       | Some v \<Rightarrow> map_option ((@) (utf16_units v)) (uri_assemble (drop (n - 1) ts))))))"
  by pat_completeness auto
termination
  by (relation "measure length") auto

definition decodeURIComponent :: "jsstring \<Rightarrow> jsstring option" where
  "decodeURIComponent s = Option.bind (uri_tokens s) uri_assemble"

definition uri_unreserved :: "nat \<Rightarrow> bool" where
  "uri_unreserved c = (is_digit c \<or> is_lower c \<or> is_upper c \<or> c \<in> set (js ''-_.!~*'()''))"

definition hex_upper :: "nat \<Rightarrow> nat" where
  "hex_upper d = (if d < 10 then 48 + d else 55 + d)"

definition percent :: "nat \<Rightarrow> jsstring" where
  "percent b = [37, hex_upper (b div 16), hex_upper (b mod 16)]"

definition utf8_octets :: "nat \<Rightarrow> nat list" where
  "utf8_octets v =
     (if v < 0x80 then [v]
      else if v < 0x800 then [192 + v div 64, 128 + v mod 64]
      else if v < 0x10000 then [224 + v div 4096, 128 + (v div 64) mod 64, 128 + v mod 64]
      else [240 + v div 262144, 128 + (v div 4096) mod 64, 128 + (v div 64) mod 64, 128 + v mod 64])"

fun encodeURIComponent :: "jsstring \<Rightarrow> jsstring option" where
  "encodeURIComponent [] = Some []"
| "encodeURIComponent (c # s) =
     (if uri_unreserved c then map_option ((#) c) (encodeURIComponent s)
      else if 0xDC00 \<le> c \<and> c \<le> 0xDFFF then None
      else if 0xD800 \<le> c \<and> c \<le> 0xDBFF then
        (case s of
           [] \<Rightarrow> None
         | d # rest \<Rightarrow>
             (if 0xDC00 \<le> d \<and> d \<le> 0xDFFF
              then map_option ((@) (concat (map percent
                     (utf8_octets ((c - 0xD800) * 1024 + (d - 0xDC00) + 0x10000)))))
                     (encodeURIComponent rest)
              else None))
      else map_option ((@) (concat (map percent (utf8_octets c)))) (encodeURIComponent s))"

section \<open>Document keys and the key-file registry\<close>

text \<open>
  \<^verbatim>\<open>onLoadFile\<close> (src/main.ts, lines 274-281) builds the key of an opened document from
  its path, its modification time (or the current time) and eight base-36 digits of
  \<^verbatim>\<open>Math.random()\<close>, and stores the path under that key:
  \<^verbatim>\<open>
  const baseForKey = effectiveFile.path + '|' + mtimeOrNow + '|' + randomId;
  let hash = 0; for (...) { hash = (hash*31 + baseForKey.charCodeAt(i)) >>> 0; }
  const uniqueKey = 'oo_' + hash.toString(36) + '_' + randomId;
  this.plugin.keyFileMap[uniqueKey] = effectiveFile.path;
  \<close>
  \<^verbatim>\<open>>>> 0\<close> reduces modulo \<open>2^32\<close>, which is the arithmetic of \<open>32 word\<close>. The random
  suffix and the time are inputs of the model.
\<close>

definition baseForKey :: "jsstring \<Rightarrow> nat \<Rightarrow> jsstring \<Rightarrow> jsstring" where
  "baseForKey path mtimeOrNow randomId =
     path @ js ''|'' @ toString_radix 10 mtimeOrNow @ js ''|'' @ randomId"

definition key_hash :: "jsstring \<Rightarrow> 32 word" where
  "key_hash s = foldl (\<lambda>hash c. hash * 31 + of_nat c) 0 s"

definition uniqueKey :: "jsstring \<Rightarrow> nat \<Rightarrow> jsstring \<Rightarrow> jsstring" where
  "uniqueKey path mtimeOrNow randomId =
     js ''oo_'' @ toString_radix 36 (unat (key_hash (baseForKey path mtimeOrNow randomId)))
       @ js ''_'' @ randomId"

text \<open>
  \<^verbatim>\<open>keyFileMap: Record<string,string> = {}\<close> is a dictionary from keys to paths. Only
  its own entries are modelled (the members an object literal inherits, such as
  \<^verbatim>\<open>constructor\<close>, are not paths and are left out).
\<close>

type_synonym keyFileMap = "jsstring \<rightharpoonup> jsstring"

record open_request =
  path :: jsstring
  mtimeOrNow :: nat
  randomId :: jsstring

definition key_of :: "open_request \<Rightarrow> jsstring" where
  "key_of r = uniqueKey (path r) (mtimeOrNow r) (randomId r)"

definition register :: "keyFileMap \<Rightarrow> open_request \<Rightarrow> keyFileMap" where
  "register m r = m(key_of r \<mapsto> path r)"

text \<open>The documents opened during a run of the process, one after the other.\<close>

fun opens :: "keyFileMap \<Rightarrow> open_request list \<Rightarrow> keyFileMap" where
  "opens m [] = m"
| "opens m (r # rs) = opens (register m r) rs"

subsection \<open>Resolving a key in the callback\<close>

text \<open>
  The legacy pattern is \<^verbatim>\<open>/^obsidian_(.+?)_\d+_[a-z0-9]+$/\<close>. After the prefix, the lazy
  group takes one character and then grows one character at a time until the rest of the
  key is \<^verbatim>\<open>_\d+_[a-z0-9]+\<close>; the dot accepts no line terminator.
\<close>

definition legacy_tail :: "jsstring \<Rightarrow> bool" where
  "legacy_tail s =
     (case s of
        [] \<Rightarrow> False
      | u # s1 \<Rightarrow>
          u = 95 \<and> takeWhile is_digit s1 \<noteq> [] \<and>
          (case dropWhile is_digit s1 of
             [] \<Rightarrow> False
           | v # al \<Rightarrow> v = 95 \<and> al \<noteq> [] \<and> list_all (\<lambda>c. is_digit c \<or> is_lower c) al))"

fun lazy_group :: "jsstring \<Rightarrow> jsstring \<Rightarrow> jsstring option" where
  "lazy_group acc [] = None"
| "lazy_group acc (c # cs) =
     (if legacy_tail (c # cs) then Some acc
      else if line_terminator c then None
      else lazy_group (acc @ [c]) cs)"

definition legacy_match :: "jsstring \<Rightarrow> jsstring option" where
  "legacy_match key =
     (if startsWith key (js ''obsidian_'') then
        (case drop 9 key of
           [] \<Rightarrow> None
         | c # cs \<Rightarrow> if line_terminator c then None else lazy_group [c] cs)
      else None)"

text \<open>
  Lines 1683-1695 of \<^verbatim>\<open>startCallbackServer\<close>:
  \<^verbatim>\<open>
  let filePath: string | null = null;
  if (this.keyFileMap && this.keyFileMap[key]) { filePath = this.keyFileMap[key]; }
  else {
      const match = /^obsidian_(.+?)_\d+_[a-z0-9]+$/.exec(key);
      if (match) { filePath = decodeURIComponent(match[1]); }
  }
  \<close>
  An entry counts when it is truthy, that is a non-empty string. The outer \<open>None\<close> is the
  \<^verbatim>\<open>URIError\<close> of \<^verbatim>\<open>decodeURIComponent\<close>, which leaves the block.
\<close>

datatype resolved = NotFound | Found jsstring

definition resolve :: "keyFileMap \<Rightarrow> jsstring \<Rightarrow> resolved option" where
  "resolve keyFileMap key =
     (case keyFileMap key of
        Some p \<Rightarrow>
          (if p \<noteq> [] then Some (Found p)
           else (case legacy_match key of
                   None \<Rightarrow> Some NotFound
                 | Some seg \<Rightarrow> map_option Found (decodeURIComponent seg)))
      | None \<Rightarrow>
          (case legacy_match key of
             None \<Rightarrow> Some NotFound
           | Some seg \<Rightarrow> map_option Found (decodeURIComponent seg)))"


subsection \<open>Example opens\<close>

definition report_docx :: open_request where
  "report_docx = \<lparr>path = js ''Notes/report.docx'', mtimeOrNow = 1700000000000,
                  randomId = js ''k3x9q2ab''\<rparr>"

definition budget_xlsx :: open_request where
  "budget_xlsx = \<lparr>path = js ''Budget.xlsx'', mtimeOrNow = 1700000000001,
                  randomId = js ''zz01abcd''\<rparr>"

definition Aa_docx :: open_request where
  "Aa_docx = \<lparr>path = js ''Aa.docx'', mtimeOrNow = 1700000000000, randomId = js ''k3x9q2ab''\<rparr>"

definition BB_docx :: open_request where
  "BB_docx = \<lparr>path = js ''BB.docx'', mtimeOrNow = 1700000000000, randomId = js ''k3x9q2ab''\<rparr>"

section \<open>The callback receiver\<close>

subsection \<open>Values of the language\<close>

text \<open>
  The body of a callback is parsed into a JavaScript value. A number is held by its
  rendering \<^verbatim>\<open>Number::toString\<close> (\<^verbatim>\<open>2\<close>, \<^verbatim>\<open>2.5\<close>, \<^verbatim>\<open>1e+21\<close>): the handler reads a
  number only through \<^verbatim>\<open>ToString\<close> and through its truth value. An object is the list
  of its own properties, each name once.
\<close>

datatype jsval =
    JUndefined
  | JNull
  | JBool bool
  | JNum jsstring
  | JStr jsstring
  | JArr "jsval list"
  | JObj "(jsstring \<times> jsval) list"

definition truthy :: "jsval \<Rightarrow> bool" where
  "truthy v =
     (case v of
        JUndefined \<Rightarrow> False
      | JNull \<Rightarrow> False
      | JBool b \<Rightarrow> b
      | JNum n \<Rightarrow> n \<noteq> js ''0'' \<and> n \<noteq> js ''NaN''
      | JStr s \<Rightarrow> s \<noteq> []
      | JArr _ \<Rightarrow> True
      | JObj _ \<Rightarrow> True)"

text \<open>
  Reading the property \<^verbatim>\<open>status\<close>, \<^verbatim>\<open>url\<close> or \<^verbatim>\<open>key\<close> of a value. On \<^verbatim>\<open>null\<close> and
  \<^verbatim>\<open>undefined\<close> this throws a \<^verbatim>\<open>TypeError\<close> (\<open>None\<close>); strings, numbers, booleans and
  arrays have no member of these names, and an object inherits none of them.
\<close>

definition get_prop :: "jsval \<Rightarrow> jsstring \<Rightarrow> jsval option" where
  "get_prop v name =
     (case v of
        JUndefined \<Rightarrow> None
      | JNull \<Rightarrow> None
      | JObj ps \<Rightarrow> Some (case map_of ps name of None \<Rightarrow> JUndefined | Some x \<Rightarrow> x)
      | _ \<Rightarrow> Some JUndefined)"

text \<open>
  \<^verbatim>\<open>ToString\<close>, as \<^verbatim>\<open>parseInt\<close>, a property key and \<^verbatim>\<open>RegExp.exec\<close> apply it. An array
  joins its elements with commas, \<^verbatim>\<open>null\<close> and \<^verbatim>\<open>undefined\<close> elements as the empty
  string. An object is \<^verbatim>\<open>[object Object]\<close>, unless it has an own property \<^verbatim>\<open>toString\<close>:
  a parsed value is never callable, so the conversion then throws a \<^verbatim>\<open>TypeError\<close>.
\<close>

fun ToString :: "jsval \<Rightarrow> jsstring option"
  and join_elements :: "jsval list \<Rightarrow> jsstring option" where
  "ToString JUndefined = Some (js ''undefined'')"
| "ToString JNull = Some (js ''null'')"
| "ToString (JBool b) = Some (if b then js ''true'' else js ''false'')"
| "ToString (JNum n) = Some n"
| "ToString (JStr s) = Some s"
| "ToString (JArr vs) = join_elements vs"
| "ToString (JObj ps) =
     (if js ''toString'' \<in> set (map fst ps) then None else Some (js ''[object Object]''))"
| "join_elements [] = Some []"
| "join_elements (v # vs) =
     (case (if v = JNull \<or> v = JUndefined then Some [] else ToString v) of
        None \<Rightarrow> None
      | Some s \<Rightarrow>
          (if vs = [] then Some s
           else map_option (\<lambda>t. s @ js '','' @ t) (join_elements vs)))"

text \<open>
  \<^verbatim>\<open>parseInt\<close> without a radix: leading white space, a sign, an optional \<^verbatim>\<open>0x\<close>, then
  the longest run of digits; \<open>None\<close> is \<^verbatim>\<open>NaN\<close>. The result is the integer the digits
  denote; the handler only compares it with 0, 2 and 6, which no rounding to a double
  changes.
\<close>

definition digit_value :: "nat \<Rightarrow> nat \<Rightarrow> nat option" where
  "digit_value r c =
     (case hex_value c of None \<Rightarrow> None | Some d \<Rightarrow> if d < r then Some d else None)"

definition parseInt :: "jsstring \<Rightarrow> int option" where
  "parseInt input =
     (let s = dropWhile white_space input;
          negative = startsWith s (js ''-'');
          s1 = (if startsWith s (js ''+'') \<or> startsWith s (js ''-'') then tl s else s);
          hex = (startsWith s1 (js ''0x'') \<or> startsWith s1 (js ''0X''));
          r = (if hex then 16 else 10);
          s2 = (if hex then drop 2 s1 else s1);
          ds = takeWhile (\<lambda>c. digit_value r c \<noteq> None) s2;
          n = foldl (\<lambda>n c. n * r + (case digit_value r c of None \<Rightarrow> 0 | Some d \<Rightarrow> d)) 0 ds
      in if ds = [] then None else Some (if negative then - int n else int n))"

subsection \<open>The environment of the handler\<close>

text \<open>
  What the handler calls outside the plugin is a parameter of the model:
  \<^verbatim>\<open>JSON.parse\<close> (\<open>None\<close> when it throws), the name-value pairs of
  \<^verbatim>\<open>new URLSearchParams(body)\<close>, the \<^verbatim>\<open>key\<close> parameter of \<^verbatim>\<open>new URL(data.url)\<close>
  (\<open>None\<close> when the constructor throws, \<open>Some None\<close> when the URL has no such
  parameter), and Obsidian's \<^verbatim>\<open>requestUrl\<close> with the status and the bytes of its answer
  (\<open>FetchError\<close> when it throws).
\<close>

type_synonym bytes = "8 word list"

datatype fetch_result = FetchError | Response int bytes

record env =
  JSON_parse :: "jsstring \<Rightarrow> jsval option"
  URLSearchParams :: "jsstring \<Rightarrow> (jsstring \<times> jsstring) list"
  URL_key :: "jsstring \<Rightarrow> jsstring option option"
  requestUrl :: "jsval \<Rightarrow> fetch_result"

text \<open>
  The vault maps a path to the file or folder there
  (\<^verbatim>\<open>this.app.vault.getAbstractFileByPath\<close>); \<^verbatim>\<open>modifyBinary\<close> replaces the bytes of a
  file, and is taken to succeed. The state of the plugin that the handler touches is the
  registry and the vault. A callback is handled in one step: what other events do to the
  vault while the handler awaits the fetch is outside the model.
\<close>

datatype abstract_file = TFile bytes | TFolder

type_synonym vault = "jsstring \<rightharpoonup> abstract_file"

record plugin =
  keyFileMap :: keyFileMap
  vault :: vault

record response =
  status :: nat
  body :: jsstring

definition quoted :: "string \<Rightarrow> string" where
  "quoted s = CHR 0x22 # s @ [CHR 0x22]"

text \<open>\<^verbatim>\<open>res.writeHead(200, ...); res.end(JSON.stringify({ error: 0 }))\<close>\<close>

definition acknowledge :: response where
  "acknowledge = \<lparr>status = 200, body = js (''{'' @ quoted ''error'' @ '':0}'')\<rparr>"

definition running_info :: response where
  "running_info =
     \<lparr>status = 200,
      body = js (''{'' @ quoted ''error'' @ '':0,'' @ quoted ''info'' @ '':''
                 @ quoted ''OnlyOffice callback server is running'' @ ''}'')\<rparr>"

definition preflight :: response where
  "preflight = \<lparr>status = 200, body = []\<rparr>"

subsection \<open>The handler\<close>

text \<open>
  Lines 1645-1660: the body is parsed as JSON; when that throws and the body contains
  \<^verbatim>\<open>url=\<close> and \<^verbatim>\<open>&\<close> it is read as form data
  (\<^verbatim>\<open>Object.fromEntries(new URLSearchParams(body))\<close>, a later pair replacing an earlier one
  of the same name); otherwise the handler answers at once.
\<close>

datatype parsed = Unparsed | Parsed jsval

definition parse_body :: "env \<Rightarrow> jsstring \<Rightarrow> parsed" where
  "parse_body e b =
     (case JSON_parse e b of
        Some d \<Rightarrow> Parsed d
      | None \<Rightarrow>
          (if includes_str b (js ''url='') \<and> includes_str b (js ''&'')
           then Parsed (JObj (map (\<lambda>(n, v). (n, JStr v)) (rev (URLSearchParams e b))))
           else Unparsed))"

text \<open>\<^verbatim>\<open>const status = parseInt(data.status) || 0;\<close>\<close>

definition status_of :: "jsval \<Rightarrow> int option" where
  "status_of d =
     do {
       s \<leftarrow> get_prop d (js ''status'');
       t \<leftarrow> ToString s;
       Some (case parseInt t of None \<Rightarrow> 0 | Some n \<Rightarrow> n)
     }"

text \<open>
  Lines 1670-1679: the key is \<^verbatim>\<open>data.key\<close>, or when that is falsy the \<^verbatim>\<open>key\<close> parameter
  of \<^verbatim>\<open>data.url\<close>; an error while reading the URL is caught and leaves the key as it was.
\<close>

definition key_of_callback :: "env \<Rightarrow> jsval \<Rightarrow> jsval \<Rightarrow> jsval" where
  "key_of_callback e key0 url =
     (if truthy key0 then key0
      else (case ToString url of
              None \<Rightarrow> key0
            | Some u \<Rightarrow>
                (case URL_key e u of
                   None \<Rightarrow> key0
                 | Some None \<Rightarrow> JNull
                 | Some (Some k) \<Rightarrow> JStr k)))"

text \<open>
  Lines 1696-1722: the file at the resolved path, if it is a file of the vault, gets the
  bytes fetched from \<^verbatim>\<open>data.url\<close> when the answer has status 200; every other case only
  logs.
\<close>

definition save_to :: "env \<Rightarrow> plugin \<Rightarrow> jsval \<Rightarrow> resolved \<Rightarrow> plugin" where
  "save_to e st url r =
     (case r of
        NotFound \<Rightarrow> st
      | Found filePath \<Rightarrow>
          (if filePath = [] then st
           else (case vault st filePath of
                   Some (TFile old) \<Rightarrow>
                     (case requestUrl e url of
                        Response code arrayBuffer \<Rightarrow>
                          (if code = 200 then st\<lparr>vault := (vault st)(filePath \<mapsto> TFile arrayBuffer)\<rparr>
                           else st)
                      | FetchError \<Rightarrow> st)
                 | _ \<Rightarrow> st)))"

text \<open>
  Lines 1664-1728, inside the outer \<^verbatim>\<open>try\<close>: \<open>None\<close> is an exception that reaches the
  outer \<^verbatim>\<open>catch\<close> (a property of \<^verbatim>\<open>null\<close>, a failing \<^verbatim>\<open>ToString\<close>, the \<^verbatim>\<open>URIError\<close> of
  the legacy decoding), all raised before anything is written.
\<close>

definition process :: "env \<Rightarrow> plugin \<Rightarrow> jsval \<Rightarrow> plugin option" where
  "process e st d =
     do {
       status \<leftarrow> status_of d;
       if truthy d \<and> (status = 2 \<or> status = 6 \<or> status = 0) then
         do {
           url \<leftarrow> get_prop d (js ''url'');
           if truthy url then
             do {
               key0 \<leftarrow> get_prop d (js ''key'');
               let key = key_of_callback e key0 url;
               if truthy key then
                 do {
                   k \<leftarrow> ToString key;
                   r \<leftarrow> resolve (keyFileMap st) k;
                   Some (save_to e st url r)
                 }
               else Some st
             }
           else Some st
         }
       else Some st
     }"

text \<open>
  The \<^verbatim>\<open>end\<close> listener of a POST to \<^verbatim>\<open>/callback\<close> (lines 1642-1739): every path, the
  \<^verbatim>\<open>catch\<close> included, ends with the same answer.
\<close>

definition callback_end :: "env \<Rightarrow> plugin \<Rightarrow> jsstring \<Rightarrow> response \<times> plugin" where
  "callback_end e st b =
     (case parse_body e b of
        Unparsed \<Rightarrow> (acknowledge, st)
      | Parsed d \<Rightarrow>
          (case process e st d of
             Some st' \<Rightarrow> (acknowledge, st')
           | None \<Rightarrow> (acknowledge, st)))"

record request =
  req_method :: jsstring
  req_url :: jsstring
  req_body :: jsstring

text \<open>The request listener of the callback server (lines 1620-1745).\<close>

definition callback_request :: "env \<Rightarrow> plugin \<Rightarrow> request \<Rightarrow> response \<times> plugin" where
  "callback_request e st req =
     (if req_method req = js ''OPTIONS'' then (preflight, st)
      else if req_method req = js ''POST'' \<and>
              before_query (if req_url req = [] then js ''/'' else req_url req) = js ''/callback''
      then callback_end e st (req_body req)
      else (running_info, st))"

subsection \<open>Example callbacks\<close>

text \<open>
  A vault with one document, opened under the key \<^verbatim>\<open>oo_abc123_xy9\<close>, and a document
  server that answers the download URL with three bytes.
\<close>

definition out_url :: jsstring where
  "out_url = js ''http://127.0.0.1:8080/cache/files/out.bin''"

definition opened :: plugin where
  "opened = \<lparr>keyFileMap = [js ''oo_abc123_xy9'' \<mapsto> js ''Notes/report.docx''],
             vault = [js ''Notes/report.docx'' \<mapsto> TFile [0x50, 0x4B]]\<rparr>"

text \<open>The body \<^verbatim>\<open>{"key":"oo_abc123_xy9","url":"http://127.0.0.1:8080/cache/files/out.bin"}\<close>,
  which has no status, and the same body with \<^verbatim>\<open>"status":2\<close> and with \<^verbatim>\<open>"status":4\<close>.\<close>

definition body_without_status :: jsstring where
  "body_without_status =
     js (''{'' @ quoted ''key'' @ '':'' @ quoted ''oo_abc123_xy9'' @ '','' @ quoted ''url'' @ '':''
         @ quoted ''http://127.0.0.1:8080/cache/files/out.bin'' @ ''}'')"

definition body_with_status :: "string \<Rightarrow> jsstring" where
  "body_with_status n =
     js (''{'' @ quoted ''status'' @ '':'' @ n @ '','' @ quoted ''key'' @ '':''
         @ quoted ''oo_abc123_xy9'' @ '','' @ quoted ''url'' @ '':''
         @ quoted ''http://127.0.0.1:8080/cache/files/out.bin'' @ ''}'')"

definition data_with_status :: "string \<Rightarrow> jsval" where
  "data_with_status n =
     JObj [(js ''status'', JNum (js n)), (js ''key'', JStr (js ''oo_abc123_xy9'')),
           (js ''url'', JStr out_url)]"

definition example_env :: env where
  "example_env =
     \<lparr>JSON_parse = (\<lambda>b.
        if b = body_without_status
        then Some (JObj [(js ''key'', JStr (js ''oo_abc123_xy9'')), (js ''url'', JStr out_url)])
        else if b = body_with_status ''2'' then Some (data_with_status ''2'')
        else if b = body_with_status ''4'' then Some (data_with_status ''4'')
        else if b = js ''null'' then Some JNull
        else None),
      URLSearchParams = (\<lambda>b. []),
      URL_key = (\<lambda>u. Some None),
      requestUrl = (\<lambda>u. if u = JStr out_url then Response 200 [1, 2, 3] else FetchError)\<rparr>"

section \<open>Binding the two local servers\<close>











subsection \<open>Example environments for the port binding\<close>




section \<open>The editor configuration and its tokens\<close>

text \<open>
  \<^verbatim>\<open>loadDirectOnlyOfficeInterface\<close> (lines 417-511) builds the configuration of the editor
  and, when a secret is set, signs it. The fields that are constants (the permissions,
  the user, the customisation, the sizes) are left out; the model keeps the document
  descriptor and the three URLs of the editor section.
\<close>

record document =
  fileType :: jsstring
  key :: jsstring
  title :: jsstring
  url :: jsstring

record editorConfig =
  callbackUrl :: jsstring
  createUrl :: jsstring
  saveAsUrl :: jsstring

record baseConfig =
  documentType :: jsstring
  document :: document
  editorConfig :: editorConfig

record settings =
  jwtSecret :: jsstring
  useRequestToken :: "bool option"

text \<open>
  The arguments of the function: \<open>arg_ext\<close> is \<^verbatim>\<open>(file?.extension || 'docx').toLowerCase()\<close>
  and \<open>arg_localServerPort\<close> is \<^verbatim>\<open>this.plugin.localServerPort\<close>.
\<close>

record editor_args =
  arg_dockerFileUrl :: jsstring
  arg_dockerBaseUrl :: jsstring
  arg_callbackUrl :: jsstring
  arg_fileName :: jsstring
  arg_ext :: jsstring
  arg_isStartDocx :: bool
  arg_uniqueKey :: jsstring
  arg_localServerPort :: int

definition toString_int :: "int \<Rightarrow> jsstring" where
  "toString_int i =
     (if i < 0 then js ''-'' @ toString_radix 10 (nat (- i)) else toString_radix 10 (nat i))"

definition documentUrl :: "editor_args \<Rightarrow> jsstring" where
  "documentUrl a =
     (if arg_isStartDocx a then arg_dockerBaseUrl a @ js ''/assets/Start.docx''
      else arg_dockerFileUrl a)"

definition documentType_of :: "jsstring \<Rightarrow> jsstring" where
  "documentType_of ext =
     (if ext = js ''xlsx'' then js ''cell'' else if ext = js ''pptx'' then js ''slide''
      else js ''word'')"

text \<open>The configuration before any token (lines 425-473).\<close>

definition initial_config :: "editor_args \<Rightarrow> baseConfig" where
  "initial_config a =
     \<lparr>documentType = documentType_of (arg_ext a),
      document =
        \<lparr>fileType = (if arg_ext a = [] then js ''docx'' else arg_ext a),
         key = arg_uniqueKey a,
         title = arg_fileName a,
         url = documentUrl a\<rparr>,
      editorConfig =
        \<lparr>callbackUrl = arg_callbackUrl a,
         createUrl = js ''http://127.0.0.1:'' @ toString_int (arg_localServerPort a)
                       @ js ''/api/createNew?fileType='' @ documentType_of (arg_ext a),
         saveAsUrl = js ''http://127.0.0.1:'' @ toString_int (arg_localServerPort a)
                       @ js ''/api/saveAs''\<rparr>\<rparr>"

text \<open>
  \<^verbatim>\<open>SignJWT\<close> of the \<^verbatim>\<open>jose\<close> library is a parameter: it maps a claim set and the
  secret to the compact token, or throws (\<open>None\<close>). There are two claim sets,
  \<^verbatim>\<open>{ key, ts }\<close> for the request token and \<^verbatim>\<open>{ document, editorConfig, iat }\<close> for the
  configuration.
\<close>

datatype claims =
    RequestClaims jsstring nat
  | ConfigClaims document editorConfig nat

text \<open>
  \<^verbatim>\<open>const append = (u) => u + (u.includes('?') ? '&' : '?') + 'token=' + encodeURIComponent(requestToken);\<close>
\<close>

definition append_token :: "jsstring \<Rightarrow> jsstring \<Rightarrow> jsstring option" where
  "append_token requestToken u =
     map_option (\<lambda>t. u @ (if includes_str u (js ''?'') then js ''&'' else js ''?'') @ js ''token='' @ t)
       (encodeURIComponent requestToken)"

text \<open>Lines 484-497: the four URLs get the request token, in this order.\<close>

definition append_request_token :: "jsstring \<Rightarrow> baseConfig \<Rightarrow> baseConfig option" where
  "append_request_token requestToken c =
     do {
       u1 \<leftarrow> append_token requestToken (url (document c));
       u2 \<leftarrow> append_token requestToken (callbackUrl (editorConfig c));
       u3 \<leftarrow> append_token requestToken (createUrl (editorConfig c));
       u4 \<leftarrow> append_token requestToken (saveAsUrl (editorConfig c));
       Some (c\<lparr>document := (document c)\<lparr>url := u1\<rparr>,
                editorConfig := \<lparr>callbackUrl = u2, createUrl = u3, saveAsUrl = u4\<rparr>\<rparr>)
     }"

text \<open>
  What the function hands to the embedded page: the configuration, which the page reads
  from \<^verbatim>\<open>JSON.stringify(baseConfig)\<close>, and the signed token if there is one. \<open>None\<close> is an
  exception inside the \<^verbatim>\<open>try\<close> of lines 480-510, after which the function shows an error
  and returns without loading the editor. \<open>ts\<close> and \<open>iat\<close> are the two readings of the
  clock.
\<close>

record loaded =
  config :: baseConfig
  signedToken :: "jsstring option"

definition loadDirectOnlyOfficeInterface ::
  "(claims \<Rightarrow> jsstring \<Rightarrow> jsstring option) \<Rightarrow> settings \<Rightarrow> nat \<Rightarrow> nat \<Rightarrow> editor_args
     \<Rightarrow> loaded option" where
  "loadDirectOnlyOfficeInterface SignJWT s ts iat a =
     (if jwtSecret s \<noteq> [] \<and> trim (jwtSecret s) \<noteq> [] then
        do {
          c \<leftarrow> (if useRequestToken s \<noteq> Some False then
                  do {
                    requestToken \<leftarrow> SignJWT (RequestClaims (arg_uniqueKey a) ts) (jwtSecret s);
                    append_request_token requestToken (initial_config a)
                  }
                else Some (initial_config a));
          signed \<leftarrow> SignJWT (ConfigClaims (document c) (editorConfig c) iat) (jwtSecret s);
          Some \<lparr>config = c, signedToken = Some signed\<rparr>
        }
      else Some \<lparr>config = initial_config a, signedToken = None\<rparr>)"

subsection \<open>An example session\<close>

definition example_args :: editor_args where
  "example_args =
     \<lparr>arg_dockerFileUrl = js ''http://host.docker.internal:8081/Notes/report.docx'',
      arg_dockerBaseUrl = js ''http://host.docker.internal:8081'',
      arg_callbackUrl = js ''http://host.docker.internal:8082/callback'',
      arg_fileName = js ''report.docx'',
      arg_ext = js ''docx'',
      arg_isStartDocx = False,
      arg_uniqueKey = js ''oo_abc123_xy9'',
      arg_localServerPort = 8081\<rparr>"

definition example_settings :: settings where
  "example_settings = \<lparr>jwtSecret = js ''your-secret-key-please-change'', useRequestToken = Some True\<rparr>"

text \<open>A signer that stands for \<^verbatim>\<open>SignJWT\<close>: one token for requests, one for configurations.\<close>

definition example_signer :: "claims \<Rightarrow> jsstring \<Rightarrow> jsstring option" where
  "example_signer c secret =
     (case c of
        RequestClaims k ts \<Rightarrow> Some (js ''aaa.bbb.ccc'')
      | ConfigClaims d e iat \<Rightarrow> Some (js ''xxx.yyy.zzz''))"

section \<open>Naming a new document\<close>

text \<open>
  \<^verbatim>\<open>openNewDocument\<close> (lines 1358-1368 and 1412-1422) turns the name typed into the prompt
  and the chosen type into the name of the file to create:
  \<^verbatim>\<open>
  requestedName = requestedName.replace(/[\\/:*?"<>|]/g,'').trim();
  if (!requestedName) { new Notice('Invalid name'); return; }
  const extRegex = new RegExp(`\.${chosenType}$`,'i');
  if (!extRegex.test(requestedName)) requestedName += `.${chosenType}`;
  if (this.app.vault.getAbstractFileByPath(requestedName)) { // uniqueness
      let base = requestedName.replace(new RegExp(`\.${chosenType}$`,'i'),'');
      let i=1; let candidate = `${base} (${i}).${chosenType}`;
      while (this.app.vault.getAbstractFileByPath(candidate)) { i++; candidate = `${base} (${i}).${chosenType}`; }
      requestedName = candidate;
  }
  \<close>
  In a template literal \<^verbatim>\<open>\.\<close> is a plain dot, so the pattern handed to \<^verbatim>\<open>RegExp\<close> is
  \<^verbatim>\<open>.docx$\<close> (for the type \<^verbatim>\<open>docx\<close>): any one character that is no line terminator, then
  the type, at the end of the name, letters compared without case.
\<close>

datatype chosenType = Docx | Xlsx | Pptx

definition type_name :: "chosenType \<Rightarrow> jsstring" where
  "type_name t = (case t of Docx \<Rightarrow> js ''docx'' | Xlsx \<Rightarrow> js ''xlsx'' | Pptx \<Rightarrow> js ''pptx'')"

definition ascii_lower :: "nat \<Rightarrow> nat" where
  "ascii_lower c = (if is_upper c then c + 32 else c)"

text \<open>The characters of \<^verbatim>\<open>/[\\/:*?"<>|]/\<close>; 92 is the backslash and 34 the double quote.\<close>

definition forbidden :: "nat \<Rightarrow> bool" where
  "forbidden c = (c = 92 \<or> c = 34 \<or> c \<in> set (js ''/:*?<>|''))"

definition sanitize :: "jsstring \<Rightarrow> jsstring" where
  "sanitize name = trim (filter (\<lambda>c. \<not> forbidden c) name)"

text \<open>\<^verbatim>\<open>extRegex.test(name)\<close> and \<^verbatim>\<open>name.replace(extRegex, '')\<close>.\<close>

definition extRegex_test :: "chosenType \<Rightarrow> jsstring \<Rightarrow> bool" where
  "extRegex_test t name =
     (let n = length (type_name t)
      in n < length name \<and>
         \<not> line_terminator (name ! (length name - n - 1)) \<and>
         map ascii_lower (drop (length name - n) name) = type_name t)"

definition extRegex_remove :: "chosenType \<Rightarrow> jsstring \<Rightarrow> jsstring" where
  "extRegex_remove t name =
     (if extRegex_test t name then take (length name - length (type_name t) - 1) name else name)"

definition candidate :: "jsstring \<Rightarrow> chosenType \<Rightarrow> nat \<Rightarrow> jsstring" where
  "candidate base t i = base @ js '' ('' @ toString_radix 10 i @ js '').'' @ type_name t"

text \<open>
  The \<^verbatim>\<open>while\<close> loop runs for as long as the candidate names exist; that it returns is a
  matter of the vault, so it is a function into \<open>option\<close>. The counter is a natural
  number.
\<close>

partial_function (option) next_candidate ::
  "vault \<Rightarrow> jsstring \<Rightarrow> chosenType \<Rightarrow> nat \<Rightarrow> jsstring option" where
  "next_candidate v base t i =
     (if v (candidate base t i) \<noteq> None then next_candidate v base t (i + 1)
      else Some (candidate base t i))"

datatype naming = InvalidName | FileName jsstring

definition requested_file_name :: "vault \<Rightarrow> jsstring \<Rightarrow> chosenType \<Rightarrow> naming option" where
  "requested_file_name v typed t =
     (let requestedName = sanitize typed
      in if requestedName = [] then Some InvalidName
         else
           (let requestedName =
                  (if extRegex_test t requestedName then requestedName
                   else requestedName @ js ''.'' @ type_name t)
            in if v requestedName \<noteq> None
               then map_option FileName (next_candidate v (extRegex_remove t requestedName) t 1)
               else Some (FileName requestedName)))"

text \<open>
  \<^verbatim>\<open>this.app.vault.createBinary(finalName, templateData)\<close> then creates the file with the
  bytes of the template.
\<close>

definition createBinary :: "vault \<Rightarrow> jsstring \<Rightarrow> bytes \<Rightarrow> vault option" where
  "createBinary v name data = (if v name \<noteq> None then None else Some (v(name \<mapsto> TFile data)))"

subsection \<open>Example vaults\<close>

definition draft_vault :: vault where
  "draft_vault = [js ''Draft.xlsx'' \<mapsto> TFile []]"

definition drafts_vault :: vault where
  "drafts_vault = [js ''Draft.xlsx'' \<mapsto> TFile [], js ''Draft (1).xlsx'' \<mapsto> TFile [],
                   js ''Draft (2).xlsx'' \<mapsto> TFolder]"

definition double_extension_vault :: vault where
  "double_extension_vault = [js ''Draft.xlsx.xlsx'' \<mapsto> TFile []]"

section \<open>The static file server\<close>

subsection \<open>Joining paths\<close>

text \<open>
  \<^verbatim>\<open>path.join\<close> of Node.js depends on the host: the plugin runs on Linux, macOS and
  Windows, and each has its own separators and roots. The listener is therefore given
  the \<^verbatim>\<open>path.join\<close> of its host as a parameter (below, in \<open>static_env\<close>).

  This subsection defines the POSIX one, \<open>posix_join\<close>, where \<^verbatim>\<open>/\<close> is the only separator. It
  joins its arguments with a slash and normalises the result: empty and \<^verbatim>\<open>.\<close> segments
  vanish, and a \<^verbatim>\<open>..\<close> segment removes the segment before it (at the root of an absolute
  path it vanishes too; in a relative path it stays when nothing is left to remove). The
  \<open>location\<close> of a POSIX path is the list of segments it normalises to.
\<close>

fun split_on :: "nat \<Rightarrow> jsstring \<Rightarrow> jsstring list" where
  "split_on c [] = [] # []"
| "split_on c (x # xs) =
     (if x = c then [] # split_on c xs
      else (case split_on c xs of [] \<Rightarrow> [x] # [] | s # ss \<Rightarrow> (x # s) # ss))"

definition segments :: "jsstring \<Rightarrow> jsstring list" where
  "segments p = split_on 47 p"

definition push_segment :: "bool \<Rightarrow> jsstring list \<Rightarrow> jsstring \<Rightarrow> jsstring list" where
  "push_segment absolute stack seg =
     (if seg = [] \<or> seg = js ''.'' then stack
      else if seg = js ''..'' then
        (if stack \<noteq> [] \<and> last stack \<noteq> js ''..'' then butlast stack
         else if absolute then stack
         else stack @ [js ''..''])
      else stack @ [seg])"

definition isAbsolute :: "jsstring \<Rightarrow> bool" where
  "isAbsolute p = startsWith p (js ''/'')"

definition location :: "jsstring \<Rightarrow> jsstring list" where
  "location p = foldl (push_segment (isAbsolute p)) [] (segments p)"

fun join_segments :: "jsstring list \<Rightarrow> jsstring" where
  "join_segments [] = []"
| "join_segments [s] = s"
| "join_segments (s # t # ss) = s @ js ''/'' @ join_segments (t # ss)"

definition normalize :: "jsstring \<Rightarrow> jsstring" where
  "normalize p =
     (if p = [] then js ''.''
      else
        (let trailing = (last p = 47);
             inner = join_segments (location p)
         in if inner = [] then (if isAbsolute p then js ''/'' else if trailing then js ''./'' else js ''.'')
            else (if isAbsolute p then js ''/'' else []) @ inner @ (if trailing then js ''/'' else [])))"

definition joined :: "jsstring \<Rightarrow> jsstring \<Rightarrow> jsstring" where
  "joined a b = (if a = [] then b else if b = [] then a else a @ js ''/'' @ b)"

definition posix_join :: "jsstring \<Rightarrow> jsstring \<Rightarrow> jsstring" where
  "posix_join a b = (if joined a b = [] then js ''.'' else normalize (joined a b))"

text \<open>
  A POSIX path lies within a root when the root's location is a prefix of its location.
\<close>

definition within :: "jsstring \<Rightarrow> jsstring \<Rightarrow> bool" where
  "within root p = (take (length (location root)) (location p) = location root)"

text \<open>
  A list of segments is in normal form when no segment is empty, is \<^verbatim>\<open>.\<close> or holds a
  slash, and \<^verbatim>\<open>..\<close> segments stand only in front, and only in a relative path.
\<close>

definition normal_form :: "bool \<Rightarrow> jsstring list \<Rightarrow> bool" where
  "normal_form absolute stack =
     ((\<forall>s \<in> set stack. s \<noteq> [] \<and> s \<noteq> js ''.'' \<and> 47 \<notin> set s) \<and>
      (absolute \<longrightarrow> js ''..'' \<notin> set stack) \<and>
      js ''..'' \<notin> set (dropWhile (\<lambda>s. s = js ''..'') stack))"

subsection \<open>The request listener\<close>

text \<open>
  The host is a parameter: its \<^verbatim>\<open>path.join\<close>, and its file system, that is, what is at a
  path, if anything (\<^verbatim>\<open>fs.existsSync\<close>, \<^verbatim>\<open>fs.statSync(p).isFile()\<close>, and the bytes that
  \<^verbatim>\<open>fs.readFile\<close> and \<^verbatim>\<open>fs.createReadStream\<close> deliver). So are the \<^verbatim>\<open>url\<close> and \<^verbatim>\<open>title\<close>
  parameters that \<^verbatim>\<open>new URL(req.url, ...)\<close> finds for the save-as page (\<open>None\<close> when it
  throws).
\<close>

datatype fs_node = RegularFile bytes | Directory

record static_env =
  vaultPath :: jsstring
  resolvedPluginPath :: jsstring
  path_join :: "jsstring \<Rightarrow> jsstring \<Rightarrow> jsstring"
  fs :: "jsstring \<Rightarrow> fs_node option"
  saveAs_params :: "jsstring \<Rightarrow> (jsstring \<times> jsstring) option"

definition isFile :: "static_env \<Rightarrow> jsstring \<Rightarrow> bool" where
  "isFile e p = (case fs e p of Some (RegularFile data) \<Rightarrow> True | _ \<Rightarrow> False)"

text \<open>
  An answer is a status code and what is sent: nothing, a text, one of the two generated
  pages, or the bytes of a file. Headers (CORS, content type) are not modelled.
\<close>

datatype payload =
    NoBody
  | Text jsstring
  | CreateNewPage
  | SaveAsPage jsstring jsstring
  | Contents bytes

record static_response =
  code :: nat
  payload :: payload

text \<open>
  \<^verbatim>\<open>fs.readFile(path, (err, data) => ...)\<close> after \<^verbatim>\<open>fs.existsSync(path)\<close>, for the two pages
  of the plugin directory.
\<close>

definition serve_page :: "static_env \<Rightarrow> jsstring \<Rightarrow> static_response" where
  "serve_page e name =
     (case fs e (path_join e (resolvedPluginPath e) name) of
        None \<Rightarrow> \<lparr>code = 404, payload = Text (name @ js '' not found'')\<rparr>
      | Some Directory \<Rightarrow> \<lparr>code = 500, payload = Text (js ''Error reading '' @ name)\<rparr>
      | Some (RegularFile data) \<Rightarrow> \<lparr>code = 200, payload = Contents data\<rparr>)"

text \<open>
  \<^verbatim>\<open>reqPath.replace(/^\//, '')\<close> and lines 1537-1562: the file is looked up under the vault
  and then under the plugin directory.
\<close>

definition strip_slash :: "jsstring \<Rightarrow> jsstring" where
  "strip_slash p = (if startsWith p (js ''/'') then tl p else p)"

definition serve_file :: "static_env \<Rightarrow> jsstring \<Rightarrow> static_response" where
  "serve_file e reqPath =
     (let filePath = path_join e (vaultPath e) (strip_slash reqPath)
      in case fs e filePath of
           Some (RegularFile data) \<Rightarrow> \<lparr>code = 200, payload = Contents data\<rparr>
         | _ \<Rightarrow>
             (let pluginFilePath = path_join e (resolvedPluginPath e) (strip_slash reqPath)
              in case fs e pluginFilePath of
                   Some (RegularFile data) \<Rightarrow> \<lparr>code = 200, payload = Contents data\<rparr>
                 | _ \<Rightarrow> \<lparr>code = 404, payload = Text (js ''File not found: '' @ filePath)\<rparr>))"

text \<open>
  The body of the listener of \<^verbatim>\<open>startInternalServer\<close> after the test for \<^verbatim>\<open>OPTIONS\<close>
  (lines 1476-1568), given the URL of the request: what it writes to the response.
  \<^verbatim>\<open>decodeURIComponent(req.url?.split('?')[0] || '/')\<close> may throw, which the \<^verbatim>\<open>catch\<close> turns
  into the answer 500.
\<close>

definition request_path :: "jsstring \<Rightarrow> jsstring" where
  "request_path u = (if before_query u = [] then js ''/'' else before_query u)"

definition handle_path :: "static_env \<Rightarrow> jsstring \<Rightarrow> static_response" where
  "handle_path e u =
     (case decodeURIComponent (request_path u) of
        None \<Rightarrow> \<lparr>code = 500, payload = Text (js ''Internal server error: URI malformed'')\<rparr>
      | Some reqPath \<Rightarrow>
          if reqPath = js ''/api/createNew'' then \<lparr>code = 200, payload = CreateNewPage\<rparr>
          else if reqPath = js ''/api/saveAs'' then
            (case saveAs_params e u of
               None \<Rightarrow> \<lparr>code = 500, payload = Text (js ''Internal server error: Invalid URL'')\<rparr>
             | Some (target, name) \<Rightarrow> \<lparr>code = 200, payload = SaveAsPage target name\<rparr>)
          else if reqPath = js ''/'' \<or> reqPath = js ''/editor.html''
            then serve_page e (js ''editor.html'')
          else if reqPath = js ''/embedded-editor.html''
            then serve_page e (js ''embedded-editor.html'')
          else serve_file e reqPath)"

text \<open>
  The listener (lines 1460-1569), given the method and the URL of the request: what the
  client is sent. Apart from \<^verbatim>\<open>OPTIONS\<close> the listener does not look at the method; in answer
  to a \<^verbatim>\<open>HEAD\<close> request the HTTP server of Node.js sends the status and drops the body
  that the listener writes.
\<close>

definition static_request :: "static_env \<Rightarrow> jsstring \<Rightarrow> jsstring \<Rightarrow> static_response" where
  "static_request e meth u =
     (if meth = js ''OPTIONS'' then \<lparr>code = 200, payload = NoBody\<rparr>
      else if meth = js ''HEAD'' then (handle_path e u)\<lparr>payload := NoBody\<rparr>
      else handle_path e u)"

subsection \<open>An example installation\<close>

definition home_env :: static_env where
  "home_env =
     \<lparr>vaultPath = js ''/home/u/vault'',
      resolvedPluginPath = js ''/home/u/vault/.obsidian/plugins/onlyoffice'',
      path_join = posix_join,
      fs = [js ''/home/u/secret.txt'' \<mapsto> RegularFile [0x73, 0x33],
            js ''/home/u/vault/Notes/report.docx'' \<mapsto> RegularFile [0x50, 0x4B],
            js ''/home/u/vault/Notes'' \<mapsto> Directory,
            js ''/home/u/vault/.obsidian/plugins/onlyoffice/styles.css'' \<mapsto> RegularFile [0x2F, 0x2A]],
      saveAs_params = (\<lambda>u. Some ([], []))\<rparr>"

section \<open>Properties of the keys and of the registry\<close>

lemma toString_radix_36_digits:
  "list_all (\<lambda>c. is_digit c \<or> is_lower c) (toString_radix 36 n)"
proof (induction "36 :: nat" n rule: toString_radix.induct)
  case (1 n)
  show ?case
  proof (cases "n < 36")
    case True
    then show ?thesis
      by (subst toString_radix.simps) (auto simp: digit_char_def is_digit_def is_lower_def)
  next
    case False
    have "n mod 36 < 36" by simp
    then have "is_digit (digit_char (n mod 36)) \<or> is_lower (digit_char (n mod 36))"
      by (auto simp: digit_char_def is_digit_def is_lower_def)
    with False 1 show ?thesis
      by (subst toString_radix.simps) simp
  qed
qed

lemma toString_radix_nonempty: "toString_radix r n \<noteq> []"
  by (subst toString_radix.simps) simp

lemma uniqueKey_not_legacy: "legacy_match (uniqueKey p t r) = None"
  by (simp add: legacy_match_def uniqueKey_def startsWith_def js_def)

lemma opens_other_keys:
  "\<forall>r' \<in> set rs. key_of r' \<noteq> k \<Longrightarrow> opens m rs k = m k"
  by (induction rs arbitrary: m) (auto simp: register_def)

lemma resolve_registered: "m k = Some p \<Longrightarrow> p \<noteq> [] \<Longrightarrow> resolve m k = Some (Found p)"
  by (simp add: resolve_def)

lemma resolve_unregistered:
  "m k = None \<Longrightarrow>
   resolve m k = (case legacy_match k of
                    None \<Rightarrow> Some NotFound
                  | Some seg \<Rightarrow> map_option Found (decodeURIComponent seg))"
  by (simp add: resolve_def)

text \<open>
  C10. A key made by \<^verbatim>\<open>onLoadFile\<close> is \<^verbatim>\<open>oo_\<close>, then the hash in base 36 (a non-empty run
  of digits and lower-case letters), then an underscore and the random suffix. It never
  matches the legacy pattern, so resolving it gives exactly what the registry holds for it:
  the registered path, and no path at all when the key has no (non-empty) entry.
\<close>

theorem generated_key_only_in_registry:
  "(\<exists>h. uniqueKey p t r = js ''oo_'' @ h @ js ''_'' @ r \<and> h \<noteq> [] \<and>
        list_all (\<lambda>c. is_digit c \<or> is_lower c) h) \<and>
   legacy_match (uniqueKey p t r) = None \<and>
   resolve m (uniqueKey p t r) =
     (case m (uniqueKey p t r) of
        None \<Rightarrow> Some NotFound
      | Some q \<Rightarrow> if q \<noteq> [] then Some (Found q) else Some NotFound)"
proof -
  have "\<exists>h. uniqueKey p t r = js ''oo_'' @ h @ js ''_'' @ r \<and> h \<noteq> [] \<and>
        list_all (\<lambda>c. is_digit c \<or> is_lower c) h"
    unfolding uniqueKey_def
    using toString_radix_36_digits toString_radix_nonempty by blast
  moreover have "resolve m (uniqueKey p t r) =
     (case m (uniqueKey p t r) of
        None \<Rightarrow> Some NotFound
      | Some q \<Rightarrow> if q \<noteq> [] then Some (Found q) else Some NotFound)"
    by (simp add: resolve_def uniqueKey_not_legacy split: option.splits)
  ultimately show ?thesis
    using uniqueKey_not_legacy by blast
qed

theorem generated_key_only_in_registry_witness:
  "legacy_match (uniqueKey (js ''Notes/report.docx'') 1700000000000 (js ''k3x9q2ab'')) = None \<and>
   resolve Map.empty (uniqueKey (js ''Notes/report.docx'') 1700000000000 (js ''k3x9q2ab''))
     = Some NotFound \<and>
   resolve [uniqueKey (js ''Notes/report.docx'') 1700000000000 (js ''k3x9q2ab'')
              \<mapsto> js ''Notes/report.docx'']
       (uniqueKey (js ''Notes/report.docx'') 1700000000000 (js ''k3x9q2ab''))
     = Some (Found (js ''Notes/report.docx''))"
  using generated_key_only_in_registry
          [of "js ''Notes/report.docx''" 1700000000000 "js ''k3x9q2ab''" Map.empty]
        generated_key_only_in_registry
          [of "js ''Notes/report.docx''" 1700000000000 "js ''k3x9q2ab''"
              "[uniqueKey (js ''Notes/report.docx'') 1700000000000 (js ''k3x9q2ab'')
                  \<mapsto> js ''Notes/report.docx'']"]
  by (simp add: js_def)


text \<open>
  C4, as the code has it. Once a document with a non-empty path has been opened, its key
  resolves to its path after any later opens, provided none of them produces the same key
  again (the registry has no deletion, but an equal key overwrites the entry). A key
  without an entry resolves to no path unless it matches the legacy pattern; then the
  path is the percent-decoding of the captured segment, and when that decoding throws
  there is no path either.
\<close>

theorem registered_key_resolves:
  assumes "path r \<noteq> []"
    and "\<forall>r' \<in> set later. key_of r' \<noteq> key_of r"
  shows "resolve (opens (register m r) later) (key_of r) = Some (Found (path r)) \<and>
         (\<forall>k. opens (register m r) later k = None \<longrightarrow>
              resolve (opens (register m r) later) k =
                (case legacy_match k of
                   None \<Rightarrow> Some NotFound
                 | Some seg \<Rightarrow> map_option Found (decodeURIComponent seg)))"
proof -
  have "opens (register m r) later (key_of r) = register m r (key_of r)"
    using assms(2) by (rule opens_other_keys)
  then have "opens (register m r) later (key_of r) = Some (path r)"
    by (simp add: register_def)
  then have "resolve (opens (register m r) later) (key_of r) = Some (Found (path r))"
    using assms(1) by (rule resolve_registered)
  then show ?thesis
    using resolve_unregistered by blast
qed

lemma uniqueKey_last:
  "r \<noteq> [] \<Longrightarrow> last (uniqueKey p t r) = last r"
  by (simp add: uniqueKey_def)

lemma budget_key_differs: "key_of budget_xlsx \<noteq> key_of report_docx"
proof
  assume "key_of budget_xlsx = key_of report_docx"
  then have "last (key_of budget_xlsx) = last (key_of report_docx)"
    by simp
  then show False
    by (simp add: key_of_def budget_xlsx_def report_docx_def uniqueKey_last js_def)
qed

theorem registered_key_resolves_witness:
  "resolve (opens (register Map.empty report_docx) [budget_xlsx]) (key_of report_docx)
     = Some (Found (js ''Notes/report.docx'')) \<and>
   resolve (opens (register Map.empty report_docx) [budget_xlsx]) (js ''oo_abc123_xy9'')
     = Some NotFound \<and>
   resolve (opens (register Map.empty report_docx) [budget_xlsx])
       (js ''obsidian_Notes%2Freport.docx_1700000000_ab12'')
     = Some (Found (js ''Notes/report.docx''))"
proof -
  have p: "path report_docx \<noteq> []"
    by (simp add: report_docx_def js_def)
  have l: "\<forall>r' \<in> set [budget_xlsx]. key_of r' \<noteq> key_of report_docx"
    using budget_key_differs by simp
  note t = registered_key_resolves [OF p l, of Map.empty]
  have a: "js ''oo_abc123_xy9'' \<noteq> key_of report_docx"
    "js ''oo_abc123_xy9'' \<noteq> key_of budget_xlsx"
    by (auto dest!: arg_cong [where f = last]
          simp: key_of_def budget_xlsx_def report_docx_def uniqueKey_last js_def)
  have b: "js ''obsidian_Notes%2Freport.docx_1700000000_ab12'' \<noteq> key_of report_docx"
    "js ''obsidian_Notes%2Freport.docx_1700000000_ab12'' \<noteq> key_of budget_xlsx"
    by (auto dest!: arg_cong [where f = "\<lambda>k. k ! 1"]
          simp: key_of_def budget_xlsx_def report_docx_def uniqueKey_def js_def)
  have n1: "opens (register Map.empty report_docx) [budget_xlsx] (js ''oo_abc123_xy9'') = None"
    using a by (simp add: register_def)
  have n2: "opens (register Map.empty report_docx) [budget_xlsx]
              (js ''obsidian_Notes%2Freport.docx_1700000000_ab12'') = None"
    using b by (simp add: register_def)
  have m1: "legacy_match (js ''oo_abc123_xy9'') = None"
    by (simp add: legacy_match_def startsWith_def js_def)
  have m2: "legacy_match (js ''obsidian_Notes%2Freport.docx_1700000000_ab12'')
              = Some (js ''Notes%2Freport.docx'')"
    by (simp add: legacy_match_def startsWith_def js_def legacy_tail_def line_terminator_def
          is_digit_def is_lower_def)
  have d: "decodeURIComponent (js ''Notes%2Freport.docx'') = Some (js ''Notes/report.docx'')"
    by (simp add: decodeURIComponent_def js_def hex_octet_def hex_value_def is_digit_def)
  from t n1 n2 show ?thesis
    by (simp add: m1 m2 d report_docx_def)
qed

text \<open>
  Where the claim as written fails: two opens can produce one key. The hash is the
  polynomial hash in base 31, under which \<^verbatim>\<open>Aa\<close> and \<^verbatim>\<open>BB\<close> collide; with the same
  modification time and the same random suffix, the second open overwrites the entry of
  the first, whose key then resolves to the other file. And a legacy key whose captured
  segment is not a valid percent-encoding gives no path.
\<close>

lemma Aa_BB_same_key: "key_of BB_docx = key_of Aa_docx"
proof -
  have "key_hash (baseForKey (js ''BB.docx'') 1700000000000 (js ''k3x9q2ab''))
      = key_hash (baseForKey (js ''Aa.docx'') 1700000000000 (js ''k3x9q2ab''))"
    by (simp add: key_hash_def baseForKey_def js_def toString_radix.simps digit_char_def)
  then show ?thesis
    by (simp only: key_of_def uniqueKey_def Aa_docx_def BB_docx_def open_request.simps)
qed

theorem registered_key_overwritten_counterexample:
  "path Aa_docx = js ''Aa.docx'' \<and>
   resolve (opens (register Map.empty Aa_docx) [BB_docx]) (key_of Aa_docx)
     = Some (Found (js ''BB.docx'')) \<and>
   js ''BB.docx'' \<noteq> js ''Aa.docx'' \<and>
   legacy_match (js ''obsidian_%_1_a'') = Some (js ''%'') \<and>
   resolve Map.empty (js ''obsidian_%_1_a'') = None"
proof -
  have "resolve (opens (register Map.empty Aa_docx) [BB_docx]) (key_of Aa_docx)
     = Some (Found (js ''BB.docx''))"
    by (simp add: register_def Aa_BB_same_key resolve_def) (simp add: BB_docx_def js_def)
  moreover have m: "legacy_match (js ''obsidian_%_1_a'') = Some (js ''%'')"
    by (simp add: legacy_match_def startsWith_def js_def legacy_tail_def line_terminator_def
          is_digit_def is_lower_def)
  moreover have "resolve Map.empty (js ''obsidian_%_1_a'') = None"
    by (simp add: resolve_def m) (simp add: decodeURIComponent_def js_def)
  ultimately show ?thesis
    by (simp add: Aa_docx_def js_def)
qed
section \<open>Properties of the callback receiver\<close>

lemma save_to_cases:
  "save_to e st u r = st \<or>
   (\<exists>p old new. r = Found p \<and> p \<noteq> [] \<and> vault st p = Some (TFile old) \<and>
      requestUrl e u = Response 200 new \<and>
      save_to e st u r = st\<lparr>vault := (vault st)(p \<mapsto> TFile new)\<rparr>)"
  by (auto simp: save_to_def split: resolved.splits option.splits abstract_file.splits
        fetch_result.splits)

lemma save_to_written:
  "p \<noteq> [] \<Longrightarrow> vault st p = Some (TFile old) \<Longrightarrow> requestUrl e u = Response 200 new \<Longrightarrow>
   save_to e st u (Found p) = st\<lparr>vault := (vault st)(p \<mapsto> TFile new)\<rparr>"
  by (simp add: save_to_def)

lemma process_cases:
  "process e st d = Some st' \<Longrightarrow> st' = st \<or> (\<exists>u r. st' = save_to e st u r)"
  by (auto simp: process_def Let_def split: if_splits Option.bind_splits)

lemma callback_end_cases:
  "snd (callback_end e st b) = st \<or> (\<exists>u r. snd (callback_end e st b) = save_to e st u r)"
  using process_cases [of e st]
  by (auto simp: callback_end_def split: parsed.splits option.splits)

lemma callback_end_acknowledges: "fst (callback_end e st b) = acknowledge"
  by (simp add: callback_end_def split: parsed.splits option.splits)

lemma lazy_group_nonempty: "lazy_group acc s = Some seg \<Longrightarrow> acc \<noteq> [] \<Longrightarrow> seg \<noteq> []"
  by (induction s arbitrary: acc) (auto split: if_splits)

lemma legacy_match_nonempty: "legacy_match k = Some seg \<Longrightarrow> seg \<noteq> []"
  by (auto simp: legacy_match_def split: if_splits list.splits dest: lazy_group_nonempty)

lemma uri_tokens_nonempty: "uri_tokens s = Some ts \<Longrightarrow> s \<noteq> [] \<Longrightarrow> ts \<noteq> []"
  by (cases s) (auto split: if_splits list.splits option.splits)

lemma uri_assemble_nonempty: "uri_assemble ts = Some p \<Longrightarrow> ts \<noteq> [] \<Longrightarrow> p \<noteq> []"
proof (cases ts)
  case Nil
  assume "ts \<noteq> []"
  with Nil show ?thesis by simp
next
  case (Cons t rest)
  assume "uri_assemble ts = Some p"
  with Cons show ?thesis
    by (cases t) (auto simp: utf16_units_def split: if_splits option.splits)
qed

lemma decodeURIComponent_nonempty: "decodeURIComponent s = Some p \<Longrightarrow> s \<noteq> [] \<Longrightarrow> p \<noteq> []"
  by (auto simp: decodeURIComponent_def split: Option.bind_splits
        dest: uri_tokens_nonempty uri_assemble_nonempty)

lemma resolve_Found_nonempty: "resolve m k = Some (Found p) \<Longrightarrow> p \<noteq> []"
  by (auto simp: resolve_def split: option.splits if_splits
        dest: legacy_match_nonempty decodeURIComponent_nonempty)

lemma truthy_prop_truthy: "get_prop d n = Some u \<Longrightarrow> truthy u \<Longrightarrow> truthy d"
  by (cases d) (auto simp: get_prop_def truthy_def)

lemma process_other_status:
  "status_of d = Some s \<Longrightarrow> s \<noteq> 2 \<Longrightarrow> s \<noteq> 6 \<Longrightarrow> s \<noteq> 0 \<Longrightarrow> process e st d = Some st"
  by (simp add: process_def)

lemma process_without_url:
  "get_prop d (js ''url'') = Some u \<Longrightarrow> \<not> truthy u \<Longrightarrow> process e st d = Some st \<or> process e st d = None"
  by (auto simp: process_def split: Option.bind_splits)

lemma process_saves:
  assumes "status_of d = Some s" and "s = 2 \<or> s = 6 \<or> s = 0"
    and "get_prop d (js ''url'') = Some u" and "truthy u"
    and "get_prop d (js ''key'') = Some datakey"
    and "truthy (key_of_callback e datakey u)"
    and "ToString (key_of_callback e datakey u) = Some k"
    and "resolve (keyFileMap st) k = Some (Found p)"
    and "vault st p = Some (TFile old)"
    and "requestUrl e u = Response 200 new"
  shows "process e st d = Some (st\<lparr>vault := (vault st)(p \<mapsto> TFile new)\<rparr>)"
proof -
  have "truthy d"
    using assms(3,4) by (rule truthy_prop_truthy)
  moreover have "p \<noteq> []"
    using assms(8) by (rule resolve_Found_nonempty)
  then have "save_to e st u (Found p) = st\<lparr>vault := (vault st)(p \<mapsto> TFile new)\<rparr>"
    using assms(9,10) by (rule save_to_written)
  ultimately show ?thesis
    using assms(1-8) by (auto simp: process_def)
qed

text \<open>
  C3. Whatever the body of a POST to \<^verbatim>\<open>/callback\<close> (the query string aside), and whatever
  the registry, the vault and the environment are, the handler answers with status 200
  and the body \<^verbatim>\<open>{"error":0}\<close>: an exception raised while the body is handled becomes
  this answer too.
\<close>

theorem callback_always_acknowledged:
  assumes "req_method req = js ''POST''"
    and "before_query (req_url req) = js ''/callback''"
  shows "fst (callback_request e st req) = acknowledge \<and>
         status acknowledge = 200 \<and>
         body acknowledge = js (''{'' @ quoted ''error'' @ '':0}'')"
proof -
  have "req_url req \<noteq> []"
    using assms(2) by (auto simp: before_query_def js_def)
  moreover have "req_method req \<noteq> js ''OPTIONS''"
    using assms(1) by (simp add: js_def)
  ultimately have "callback_request e st req = callback_end e st (req_body req)"
    using assms by (simp add: callback_request_def)
  then show ?thesis
    by (simp add: callback_end_acknowledges acknowledge_def)
qed

theorem callback_always_acknowledged_witness:
  "fst (callback_request example_env opened
          \<lparr>req_method = js ''POST'', req_url = js ''/callback?token=abc'', req_body = js ''<html>''\<rparr>)
     = acknowledge \<and>
   fst (callback_request example_env opened
          \<lparr>req_method = js ''POST'', req_url = js ''/callback'', req_body = js ''null''\<rparr>)
     = acknowledge \<and>
   process example_env opened JNull = None \<and>
   fst (callback_request example_env opened
          \<lparr>req_method = js ''POST'', req_url = js ''/callback'',
           req_body = js ''{'' @ js (quoted ''key'') @ js '':'' @ js (quoted ''nobody'') @ js ''}''\<rparr>)
     = acknowledge"
proof -
  have q: "before_query (js ''/callback?token=abc'') = js ''/callback''"
    "before_query (js ''/callback'') = js ''/callback''"
    by (simp_all add: before_query_def js_def)
  have "process example_env opened JNull = None"
    by (simp add: process_def status_of_def get_prop_def)
  then show ?thesis
    using callback_always_acknowledged
            [of "\<lparr>req_method = js ''POST'', req_url = js ''/callback?token=abc'', req_body = js ''<html>''\<rparr>"
                example_env opened]
          callback_always_acknowledged
            [of "\<lparr>req_method = js ''POST'', req_url = js ''/callback'', req_body = js ''null''\<rparr>"
                example_env opened]
          callback_always_acknowledged
            [of "\<lparr>req_method = js ''POST'', req_url = js ''/callback'',
                  req_body = js ''{'' @ js (quoted ''key'') @ js '':'' @ js (quoted ''nobody'')
                              @ js ''}''\<rparr>"
                example_env opened]
    by (simp add: q)
qed

lemma save_to_frame:
  "keyFileMap (save_to e st u r) = keyFileMap st \<and>
   dom (vault (save_to e st u r)) = dom (vault st) \<and>
   (\<forall>q. vault (save_to e st u r) q \<noteq> vault st q \<longrightarrow>
      (\<exists>old new. vault st q = Some (TFile old) \<and> vault (save_to e st u r) q = Some (TFile new)))"
  using save_to_cases [of e st u r] by (auto split: if_splits)

lemma parse_example_2:
  "parse_body example_env (body_with_status ''2'') = Parsed (data_with_status ''2'')"
  by (simp add: parse_body_def example_env_def body_with_status_def body_without_status_def
        js_def quoted_def)

lemma status_example_2: "status_of (data_with_status ''2'') = Some 2"
  by (simp add: status_of_def data_with_status_def get_prop_def parseInt_def js_def
        white_space_def line_terminator_def startsWith_def digit_value_def hex_value_def
        is_digit_def)

lemma props_example:
  "get_prop (data_with_status n) (js ''url'') = Some (JStr out_url)"
  "get_prop (data_with_status n) (js ''key'') = Some (JStr (js ''oo_abc123_xy9''))"
  by (simp_all add: data_with_status_def get_prop_def js_def)

lemma key_example:
  "key_of_callback e (JStr (js ''oo_abc123_xy9'')) u = JStr (js ''oo_abc123_xy9'')"
  by (simp add: key_of_callback_def truthy_def js_def)

lemma truthy_examples: "truthy (JStr out_url)" "truthy (JStr (js ''oo_abc123_xy9''))"
  by (simp_all add: truthy_def out_url_def js_def)

lemma callback_end_saves:
  assumes "parse_body e b = Parsed d"
    and "status_of d = Some s" and "s = 2 \<or> s = 6 \<or> s = 0"
    and "get_prop d (js ''url'') = Some u" and "truthy u"
    and "get_prop d (js ''key'') = Some datakey"
    and "truthy (key_of_callback e datakey u)"
    and "ToString (key_of_callback e datakey u) = Some k"
    and "resolve (keyFileMap st) k = Some (Found p)"
    and "vault st p = Some (TFile old)"
    and "requestUrl e u = Response 200 new"
  shows "callback_end e st b = (acknowledge, st\<lparr>vault := (vault st)(p \<mapsto> TFile new)\<rparr>)"
  using process_saves [OF assms(2-11)] assms(1) by (simp add: callback_end_def)

text \<open>
  C2, as the code has it. The status of a callback is \<^verbatim>\<open>parseInt(data.status) || 0\<close>, so a
  missing or non-numeric status counts as 0, and the handler saves on the codes 2, 6 and
  0 (line 1666 tests \<^verbatim>\<open>status === 0\<close> too). With any other status, or with a falsy
  \<^verbatim>\<open>url\<close>, the callback is acknowledged and the state is unchanged. With one of the three
  codes and a truthy \<^verbatim>\<open>url\<close>, a key that resolves to a file of the vault and a fetch that
  answers 200, the file gets the fetched bytes.
\<close>

theorem callback_saves_on_status_2_6_0:
  assumes "parse_body e b = Parsed d"
  shows "(status_of d = Some s \<and> s \<noteq> 2 \<and> s \<noteq> 6 \<and> s \<noteq> 0 \<longrightarrow>
            callback_end e st b = (acknowledge, st)) \<and>
         (get_prop d (js ''url'') = Some u \<and> \<not> truthy u \<longrightarrow>
            callback_end e st b = (acknowledge, st)) \<and>
         (status_of d = Some s \<and> (s = 2 \<or> s = 6 \<or> s = 0) \<and>
          get_prop d (js ''url'') = Some u \<and> truthy u \<and>
          get_prop d (js ''key'') = Some datakey \<and>
          truthy (key_of_callback e datakey u) \<and>
          ToString (key_of_callback e datakey u) = Some k \<and>
          resolve (keyFileMap st) k = Some (Found p) \<and>
          vault st p = Some (TFile old) \<and>
          requestUrl e u = Response 200 new \<longrightarrow>
            callback_end e st b = (acknowledge, st\<lparr>vault := (vault st)(p \<mapsto> TFile new)\<rparr>))"
proof -
  have "callback_end e st b = (acknowledge, st)"
    if "status_of d = Some s" "s \<noteq> 2" "s \<noteq> 6" "s \<noteq> 0"
    using process_other_status [OF that, of e st] assms by (simp add: callback_end_def)
  moreover have "callback_end e st b = (acknowledge, st)"
    if "get_prop d (js ''url'') = Some u" "\<not> truthy u"
    using process_without_url [OF that, of e st] assms by (auto simp: callback_end_def)
  ultimately show ?thesis
    using callback_end_saves [OF assms] by blast
qed

lemma parse_example_4:
  "parse_body example_env (body_with_status ''4'') = Parsed (data_with_status ''4'')"
  by (simp add: parse_body_def example_env_def body_with_status_def body_without_status_def
        js_def quoted_def)

lemma status_example_4: "status_of (data_with_status ''4'') = Some 4"
  by (simp add: status_of_def data_with_status_def get_prop_def parseInt_def js_def
        white_space_def line_terminator_def startsWith_def digit_value_def hex_value_def
        is_digit_def)

lemma resolve_example:
  "resolve (keyFileMap opened) (js ''oo_abc123_xy9'') = Some (Found (js ''Notes/report.docx''))"
  by (simp add: resolve_def opened_def js_def)

lemma example_state:
  "vault opened (js ''Notes/report.docx'') = Some (TFile [0x50, 0x4B])"
  "requestUrl example_env (JStr out_url) = Response 200 [1, 2, 3]"
  by (simp_all add: opened_def example_env_def)

theorem callback_saves_on_status_2_6_0_witness:
  "callback_end example_env opened (body_with_status ''4'') = (acknowledge, opened) \<and>
   callback_end example_env opened (body_with_status ''2'') =
     (acknowledge, opened\<lparr>vault := (vault opened)(js ''Notes/report.docx'' \<mapsto> TFile [1, 2, 3])\<rparr>)"
  using callback_saves_on_status_2_6_0
          [OF parse_example_4, where s = 4 and u = "JStr out_url" and st = opened]
        callback_saves_on_status_2_6_0
          [OF parse_example_2, where s = 2 and u = "JStr out_url"
              and datakey = "JStr (js ''oo_abc123_xy9'')" and k = "js ''oo_abc123_xy9''"
              and st = opened and p = "js ''Notes/report.docx''" and old = "[0x50, 0x4B]"
              and new = "[1, 2, 3]"]
  by (simp add: status_example_4 status_example_2 props_example key_example truthy_examples
        resolve_example example_state)

text \<open>
  Where the claim as written fails: a callback without any status, whose key is
  registered and whose URL can be fetched, overwrites the document.
\<close>

theorem callback_without_status_counterexample:
  "parse_body example_env body_without_status =
     Parsed (JObj [(js ''key'', JStr (js ''oo_abc123_xy9'')), (js ''url'', JStr out_url)]) \<and>
   get_prop (JObj [(js ''key'', JStr (js ''oo_abc123_xy9'')), (js ''url'', JStr out_url)])
     (js ''status'') = Some JUndefined \<and>
   vault opened (js ''Notes/report.docx'') = Some (TFile [0x50, 0x4B]) \<and>
   callback_end example_env opened body_without_status =
     (acknowledge, opened\<lparr>vault := (vault opened)(js ''Notes/report.docx'' \<mapsto> TFile [1, 2, 3])\<rparr>)"
proof -
  let ?d = "JObj [(js ''key'', JStr (js ''oo_abc123_xy9'')), (js ''url'', JStr out_url)]"
  have parse: "parse_body example_env body_without_status = Parsed ?d"
    by (simp add: parse_body_def example_env_def)
  have missing: "get_prop ?d (js ''status'') = Some JUndefined"
    by (simp add: get_prop_def js_def)
  have "parseInt (js ''undefined'') = None"
    by (simp add: parseInt_def js_def white_space_def line_terminator_def startsWith_def
          digit_value_def hex_value_def is_digit_def)
  then have st: "status_of ?d = Some 0"
    by (simp add: status_of_def missing)
  have props: "get_prop ?d (js ''url'') = Some (JStr out_url)"
    "get_prop ?d (js ''key'') = Some (JStr (js ''oo_abc123_xy9''))"
    by (simp_all add: get_prop_def js_def)
  have "callback_end example_env opened body_without_status =
     (acknowledge, opened\<lparr>vault := (vault opened)(js ''Notes/report.docx'' \<mapsto> TFile [1, 2, 3])\<rparr>)"
    using callback_end_saves
            [OF parse st _ props(1) truthy_examples(1) props(2),
             where k = "js ''oo_abc123_xy9''" and st = opened
               and p = "js ''Notes/report.docx''" and old = "[0x50, 0x4B]" and new = "[1, 2, 3]"]
    by (simp add: key_example truthy_examples resolve_example example_state)
  with parse missing show ?thesis
    by (simp add: example_state)
qed

text \<open>
  C6. A callback with status 2, a URL that answers 200 with some bytes and a key that
  resolves to a file of the vault leaves that file with exactly those bytes; the same
  callback once more, answered with the same bytes, is acknowledged again and leaves the
  state as the first one did.
\<close>

theorem must_save_overwrites_idempotently:
  assumes "parse_body e b = Parsed d"
    and "status_of d = Some 2"
    and "get_prop d (js ''url'') = Some u" and "truthy u"
    and "get_prop d (js ''key'') = Some datakey"
    and "truthy (key_of_callback e datakey u)"
    and "ToString (key_of_callback e datakey u) = Some k"
    and "resolve (keyFileMap st) k = Some (Found p)"
    and "vault st p = Some (TFile old)"
    and "requestUrl e u = Response 200 new"
    and "callback_end e st b = (r1, st1)"
    and "callback_end e st1 b = (r2, st2)"
  shows "r1 = acknowledge \<and> vault st1 p = Some (TFile new) \<and>
         (\<forall>q. q \<noteq> p \<longrightarrow> vault st1 q = vault st q) \<and>
         r2 = acknowledge \<and> st2 = st1"
proof -
  have first: "callback_end e st b = (acknowledge, st\<lparr>vault := (vault st)(p \<mapsto> TFile new)\<rparr>)"
    using assms(1,2) _ assms(3-10) by (rule callback_end_saves) simp
  then have st1: "st1 = st\<lparr>vault := (vault st)(p \<mapsto> TFile new)\<rparr>" and r1: "r1 = acknowledge"
    using assms(11) by simp_all
  have "resolve (keyFileMap st1) k = Some (Found p)" "vault st1 p = Some (TFile new)"
    using assms(8) st1 by simp_all
  with assms(1,2) _ assms(3-7)
  have "callback_end e st1 b = (acknowledge, st1\<lparr>vault := (vault st1)(p \<mapsto> TFile new)\<rparr>)"
    using assms(10) by (rule callback_end_saves) simp
  moreover have "st1\<lparr>vault := (vault st1)(p \<mapsto> TFile new)\<rparr> = st1"
    using st1 by simp
  ultimately have "r2 = acknowledge" "st2 = st1"
    using assms(12) by simp_all
  with st1 r1 show ?thesis
    by simp
qed

theorem must_save_overwrites_idempotently_witness:
  "callback_end example_env opened (body_with_status ''2'') =
     (acknowledge, opened\<lparr>vault := [js ''Notes/report.docx'' \<mapsto> TFile [1, 2, 3]]\<rparr>) \<and>
   callback_end example_env (opened\<lparr>vault := [js ''Notes/report.docx'' \<mapsto> TFile [1, 2, 3]]\<rparr>)
       (body_with_status ''2'') =
     (acknowledge, opened\<lparr>vault := [js ''Notes/report.docx'' \<mapsto> TFile [1, 2, 3]]\<rparr>)"
proof -
  let ?st1 = "opened\<lparr>vault := [js ''Notes/report.docx'' \<mapsto> TFile [1, 2, 3]]\<rparr>"
  have c1: "callback_end example_env opened (body_with_status ''2'') = (acknowledge, ?st1)"
    using callback_end_saves
            [OF parse_example_2 status_example_2 _ props_example(1) truthy_examples(1)
                props_example(2), where k = "js ''oo_abc123_xy9''" and st = opened
                and p = "js ''Notes/report.docx''" and old = "[0x50, 0x4B]" and new = "[1, 2, 3]"]
    by (simp add: key_example truthy_examples resolve_example example_state) (simp add: opened_def)
  obtain r2 st2 where c2: "callback_end example_env ?st1 (body_with_status ''2'') = (r2, st2)"
    by (cases "callback_end example_env ?st1 (body_with_status ''2'')")
  have "r2 = acknowledge \<and> st2 = ?st1"
    using must_save_overwrites_idempotently
            [OF parse_example_2 status_example_2 props_example(1) truthy_examples(1)
                props_example(2) _ _ resolve_example example_state c1 c2]
    by (simp add: key_example truthy_examples)
  with c1 c2 show ?thesis
    by simp
qed

lemma process_changed:
  assumes "process e st d = Some st'" and "st' \<noteq> st"
  shows "\<exists>s u datakey k p old new.
           status_of d = Some s \<and> (s = 2 \<or> s = 6 \<or> s = 0) \<and>
           get_prop d (js ''url'') = Some u \<and> truthy u \<and>
           get_prop d (js ''key'') = Some datakey \<and>
           truthy (key_of_callback e datakey u) \<and>
           ToString (key_of_callback e datakey u) = Some k \<and>
           resolve (keyFileMap st) k = Some (Found p) \<and>
           vault st p = Some (TFile old) \<and>
           requestUrl e u = Response 200 new \<and>
           st' = st\<lparr>vault := (vault st)(p \<mapsto> TFile new)\<rparr>"
proof -
  from assms obtain s u datakey k r where
    s: "status_of d = Some s" "s = 2 \<or> s = 6 \<or> s = 0"
    and u: "get_prop d (js ''url'') = Some u" "truthy u"
    and k: "get_prop d (js ''key'') = Some datakey" "truthy (key_of_callback e datakey u)"
      "ToString (key_of_callback e datakey u) = Some k"
    and r: "resolve (keyFileMap st) k = Some r" "st' = save_to e st u r"
    by (auto simp: process_def Let_def split: if_splits Option.bind_splits)
  from r(2) assms(2) save_to_cases [of e st u r] obtain p old new where
    "r = Found p" "vault st p = Some (TFile old)" "requestUrl e u = Response 200 new"
    "st' = st\<lparr>vault := (vault st)(p \<mapsto> TFile new)\<rparr>"
    by auto
  with s u k r(1) show ?thesis
    by blast
qed

lemma callback_end_changed:
  assumes "snd (callback_end e st b) \<noteq> st"
  shows "\<exists>d s u datakey k p old new.
           parse_body e b = Parsed d \<and>
           status_of d = Some s \<and> (s = 2 \<or> s = 6 \<or> s = 0) \<and>
           get_prop d (js ''url'') = Some u \<and> truthy u \<and>
           get_prop d (js ''key'') = Some datakey \<and>
           truthy (key_of_callback e datakey u) \<and>
           ToString (key_of_callback e datakey u) = Some k \<and>
           resolve (keyFileMap st) k = Some (Found p) \<and>
           vault st p = Some (TFile old) \<and>
           requestUrl e u = Response 200 new \<and>
           snd (callback_end e st b) = st\<lparr>vault := (vault st)(p \<mapsto> TFile new)\<rparr>"
proof -
  from assms obtain d st' where d: "parse_body e b = Parsed d"
    and p: "process e st d = Some st'" and st': "snd (callback_end e st b) = st'"
    by (auto simp: callback_end_def split: parsed.splits option.splits)
  from assms st' have "st' \<noteq> st" by simp
  from process_changed [OF p this] d st' show ?thesis
    by blast
qed

lemma callback_end_unchanged:
  "snd (callback_end e st b) = st \<Longrightarrow> callback_end e st b = (acknowledge, st)"
  using callback_end_acknowledges [of e st b] by (cases "callback_end e st b") simp

lemma callback_end_no_file:
  assumes "parse_body e b = Parsed d"
    and "get_prop d (js ''url'') = Some u" and "get_prop d (js ''key'') = Some datakey"
    and "ToString (key_of_callback e datakey u) = Some k"
    and "resolve (keyFileMap st) k = Some (Found p)"
    and "\<forall>old. vault st p \<noteq> Some (TFile old)"
  shows "callback_end e st b = (acknowledge, st)"
proof (rule callback_end_unchanged, rule ccontr)
  assume "snd (callback_end e st b) \<noteq> st"
  from callback_end_changed [OF this] obtain d' u' datakey' k' p' old where
    "parse_body e b = Parsed d'" "get_prop d' (js ''url'') = Some u'"
    "get_prop d' (js ''key'') = Some datakey'"
    "ToString (key_of_callback e datakey' u') = Some k'"
    "resolve (keyFileMap st) k' = Some (Found p')" "vault st p' = Some (TFile old)"
    by blast
  with assms(1-5) have "vault st p = Some (TFile old)"
    by simp
  with assms(6) show False by simp
qed

lemma callback_end_not_resolved:
  assumes "parse_body e b = Parsed d"
    and "get_prop d (js ''url'') = Some u" and "get_prop d (js ''key'') = Some datakey"
    and "ToString (key_of_callback e datakey u) = Some k"
    and "resolve (keyFileMap st) k = Some NotFound \<or> resolve (keyFileMap st) k = None"
  shows "callback_end e st b = (acknowledge, st)"
proof (rule callback_end_unchanged, rule ccontr)
  assume "snd (callback_end e st b) \<noteq> st"
  from callback_end_changed [OF this] obtain d' u' datakey' k' p' where
    "parse_body e b = Parsed d'" "get_prop d' (js ''url'') = Some u'"
    "get_prop d' (js ''key'') = Some datakey'"
    "ToString (key_of_callback e datakey' u') = Some k'"
    "resolve (keyFileMap st) k' = Some (Found p')"
    by blast
  with assms(1-4) have "resolve (keyFileMap st) k = Some (Found p')"
    by simp
  with assms(5) show False by auto
qed

lemma callback_end_no_200:
  assumes "parse_body e b = Parsed d"
    and "get_prop d (js ''url'') = Some u"
    and "\<forall>new. requestUrl e u \<noteq> Response 200 new"
  shows "callback_end e st b = (acknowledge, st)"
proof (rule callback_end_unchanged, rule ccontr)
  assume "snd (callback_end e st b) \<noteq> st"
  from callback_end_changed [OF this] obtain d' u' new where
    "parse_body e b = Parsed d'" "get_prop d' (js ''url'') = Some u'"
    "requestUrl e u' = Response 200 new"
    by blast
  with assms(1,2) have "requestUrl e u = Response 200 new"
    by simp
  with assms(3) show False by simp
qed

text \<open>
  C9. A callback changes nothing but the vault. When it changes the vault, the body was
  parsed, the status was 2, 6 or 0, the key of this callback resolved to a path that
  named a file of the vault, the fetch of this callback's URL answered 200, and the
  change is that this file now has the fetched bytes. So when the path resolved from the
  callback's key names no file of the vault (nothing there, or a folder), when the key
  resolves to no path, or when the fetch of the callback's URL does not answer 200, the
  state is unchanged. The vault keeps its set of paths, an entry that differs afterwards
  was a file before and is a file after, and the answer is the acknowledgement in every
  case.
\<close>

theorem callback_overwrites_only_existing_files:
  "fst (callback_end e st b) = acknowledge \<and>
   keyFileMap (snd (callback_end e st b)) = keyFileMap st \<and>
   dom (vault (snd (callback_end e st b))) = dom (vault st) \<and>
   (\<forall>q. vault (snd (callback_end e st b)) q \<noteq> vault st q \<longrightarrow>
      (\<exists>old new. vault st q = Some (TFile old) \<and>
         vault (snd (callback_end e st b)) q = Some (TFile new))) \<and>
   (snd (callback_end e st b) \<noteq> st \<longrightarrow>
      (\<exists>d' s u' datakey' k' p' old new.
         parse_body e b = Parsed d' \<and>
         status_of d' = Some s \<and> (s = 2 \<or> s = 6 \<or> s = 0) \<and>
         get_prop d' (js ''url'') = Some u' \<and> truthy u' \<and>
         get_prop d' (js ''key'') = Some datakey' \<and>
         truthy (key_of_callback e datakey' u') \<and>
         ToString (key_of_callback e datakey' u') = Some k' \<and>
         resolve (keyFileMap st) k' = Some (Found p') \<and>
         vault st p' = Some (TFile old) \<and>
         requestUrl e u' = Response 200 new \<and>
         snd (callback_end e st b) = st\<lparr>vault := (vault st)(p' \<mapsto> TFile new)\<rparr>)) \<and>
   (parse_body e b = Parsed d \<and> get_prop d (js ''url'') = Some u \<and>
    get_prop d (js ''key'') = Some datakey \<and>
    ToString (key_of_callback e datakey u) = Some k \<and>
    resolve (keyFileMap st) k = Some (Found p) \<and>
    (\<forall>old. vault st p \<noteq> Some (TFile old)) \<longrightarrow>
      callback_end e st b = (acknowledge, st)) \<and>
   (parse_body e b = Parsed d \<and> get_prop d (js ''url'') = Some u \<and>
    get_prop d (js ''key'') = Some datakey \<and>
    ToString (key_of_callback e datakey u) = Some k \<and>
    (resolve (keyFileMap st) k = Some NotFound \<or> resolve (keyFileMap st) k = None) \<longrightarrow>
      callback_end e st b = (acknowledge, st)) \<and>
   (parse_body e b = Parsed d \<and> get_prop d (js ''url'') = Some u \<and>
    (\<forall>new. requestUrl e u \<noteq> Response 200 new) \<longrightarrow>
      callback_end e st b = (acknowledge, st))"
proof -
  have frame: "keyFileMap (snd (callback_end e st b)) = keyFileMap st \<and>
     dom (vault (snd (callback_end e st b))) = dom (vault st) \<and>
     (\<forall>q. vault (snd (callback_end e st b)) q \<noteq> vault st q \<longrightarrow>
        (\<exists>old new. vault st q = Some (TFile old) \<and>
           vault (snd (callback_end e st b)) q = Some (TFile new)))"
    using callback_end_cases [of e st b]
  proof
    assume "snd (callback_end e st b) = st"
    then show ?thesis by simp
  next
    assume "\<exists>u r. snd (callback_end e st b) = save_to e st u r"
    then obtain u r where "snd (callback_end e st b) = save_to e st u r"
      by blast
    then show ?thesis
      using save_to_frame [of e st u r] by simp
  qed
  note changed = callback_end_changed [of e st b]
  note no_file = callback_end_no_file [of e b d u datakey k st p]
  note not_resolved = callback_end_not_resolved [of e b d u datakey k st]
  note no_200 = callback_end_no_200 [of e b d u st]
  show ?thesis
    using frame callback_end_acknowledges [of e st b] changed no_file not_resolved no_200
    by blast
qed

lemma parse_example_2_404:
  "parse_body (example_env\<lparr>requestUrl := \<lambda>u. Response 404 []\<rparr>) (body_with_status ''2'')
     = Parsed (data_with_status ''2'')"
  by (simp add: parse_body_def example_env_def body_with_status_def body_without_status_def
        js_def quoted_def)

lemma ToString_key_example:
  "ToString (key_of_callback e (JStr (js ''oo_abc123_xy9'')) u) = Some (js ''oo_abc123_xy9'')"
  by (simp add: key_example)

theorem callback_overwrites_only_existing_files_witness:
  "callback_end example_env (opened\<lparr>vault := Map.empty\<rparr>) (body_with_status ''2'')
     = (acknowledge, opened\<lparr>vault := Map.empty\<rparr>) \<and>
   callback_end example_env
       (opened\<lparr>vault := [js ''Notes/report.docx'' \<mapsto> TFolder]\<rparr>) (body_with_status ''2'')
     = (acknowledge, opened\<lparr>vault := [js ''Notes/report.docx'' \<mapsto> TFolder]\<rparr>) \<and>
   callback_end example_env (opened\<lparr>keyFileMap := Map.empty\<rparr>) (body_with_status ''2'')
     = (acknowledge, opened\<lparr>keyFileMap := Map.empty\<rparr>) \<and>
   callback_end (example_env\<lparr>requestUrl := \<lambda>u. Response 404 []\<rparr>) opened
       (body_with_status ''2'')
     = (acknowledge, opened) \<and>
   dom (vault (snd (callback_end example_env opened (body_with_status ''2''))))
     = {js ''Notes/report.docx''}"
proof -
  have n: "resolve Map.empty (js ''oo_abc123_xy9'') = Some NotFound"
    by (simp add: resolve_def legacy_match_def startsWith_def js_def)
  have a: "callback_end example_env (opened\<lparr>vault := Map.empty\<rparr>) (body_with_status ''2'')
     = (acknowledge, opened\<lparr>vault := Map.empty\<rparr>)"
    using callback_overwrites_only_existing_files
            [where e = example_env and st = "opened\<lparr>vault := Map.empty\<rparr>"
               and b = "body_with_status ''2''" and d = "data_with_status ''2''"
               and u = "JStr out_url" and datakey = "JStr (js ''oo_abc123_xy9'')"
               and k = "js ''oo_abc123_xy9''" and p = "js ''Notes/report.docx''"]
    by (simp add: parse_example_2 props_example ToString_key_example resolve_example)
  have f: "callback_end example_env
       (opened\<lparr>vault := [js ''Notes/report.docx'' \<mapsto> TFolder]\<rparr>) (body_with_status ''2'')
     = (acknowledge, opened\<lparr>vault := [js ''Notes/report.docx'' \<mapsto> TFolder]\<rparr>)"
    using callback_overwrites_only_existing_files
            [where e = example_env
               and st = "opened\<lparr>vault := [js ''Notes/report.docx'' \<mapsto> TFolder]\<rparr>"
               and b = "body_with_status ''2''" and d = "data_with_status ''2''"
               and u = "JStr out_url" and datakey = "JStr (js ''oo_abc123_xy9'')"
               and k = "js ''oo_abc123_xy9''" and p = "js ''Notes/report.docx''"]
    by (simp add: parse_example_2 props_example ToString_key_example resolve_example)
  have c: "callback_end example_env (opened\<lparr>keyFileMap := Map.empty\<rparr>) (body_with_status ''2'')
     = (acknowledge, opened\<lparr>keyFileMap := Map.empty\<rparr>)"
    using callback_overwrites_only_existing_files
            [where e = example_env and st = "opened\<lparr>keyFileMap := Map.empty\<rparr>"
               and b = "body_with_status ''2''" and d = "data_with_status ''2''"
               and u = "JStr out_url" and datakey = "JStr (js ''oo_abc123_xy9'')"
               and k = "js ''oo_abc123_xy9''" and p = "js ''Notes/report.docx''"]
    by (simp add: parse_example_2 props_example ToString_key_example n)
  have g: "callback_end (example_env\<lparr>requestUrl := \<lambda>u. Response 404 []\<rparr>) opened
       (body_with_status ''2'') = (acknowledge, opened)"
    using callback_overwrites_only_existing_files
            [where e = "example_env\<lparr>requestUrl := \<lambda>u. Response 404 []\<rparr>" and st = opened
               and b = "body_with_status ''2''" and d = "data_with_status ''2''"
               and u = "JStr out_url" and datakey = "JStr (js ''oo_abc123_xy9'')"
               and k = "js ''oo_abc123_xy9''" and p = "js ''Notes/report.docx''"]
    by (simp add: parse_example_2_404 props_example)
  have h: "dom (vault (snd (callback_end example_env opened (body_with_status ''2''))))
     = {js ''Notes/report.docx''}"
    using callback_overwrites_only_existing_files
            [where e = example_env and st = opened and b = "body_with_status ''2''"
               and d = "data_with_status ''2''"
               and u = "JStr out_url" and datakey = "JStr (js ''oo_abc123_xy9'')"
               and k = "js ''oo_abc123_xy9''" and p = "js ''Notes/report.docx''"]
    by (simp add: opened_def)
  from a f c g h show ?thesis
    by simp
qed

section \<open>Properties of the port binding\<close>













section \<open>Properties of the configuration\<close>

lemma append_request_token_urls:
  assumes "append_request_token requestToken c = Some c'"
  shows "\<exists>t. encodeURIComponent requestToken = Some t \<and>
           append_token requestToken (url (document c)) = Some (url (document c')) \<and>
           append_token requestToken (callbackUrl (editorConfig c)) = Some (callbackUrl (editorConfig c')) \<and>
           append_token requestToken (createUrl (editorConfig c)) = Some (createUrl (editorConfig c')) \<and>
           append_token requestToken (saveAsUrl (editorConfig c)) = Some (saveAsUrl (editorConfig c'))"
proof -
  from assms obtain u1 u2 u3 u4 where
    u: "append_token requestToken (url (document c)) = Some u1"
       "append_token requestToken (callbackUrl (editorConfig c)) = Some u2"
       "append_token requestToken (createUrl (editorConfig c)) = Some u3"
       "append_token requestToken (saveAsUrl (editorConfig c)) = Some u4"
    and c': "c' = c\<lparr>document := (document c)\<lparr>url := u1\<rparr>,
                     editorConfig := \<lparr>callbackUrl = u2, createUrl = u3, saveAsUrl = u4\<rparr>\<rparr>"
    by (auto simp: append_request_token_def split: Option.bind_splits)
  from u(1) obtain t where "encodeURIComponent requestToken = Some t"
    by (auto simp: append_token_def)
  with u c' show ?thesis
    by simp
qed

text \<open>
  C5. With a non-blank secret and request tokens not switched off, a configuration that
  is loaded has the request token appended to its document, callback, create and save-as
  URLs (after \<^verbatim>\<open>?\<close>, or after \<^verbatim>\<open>&\<close> when the URL has a query already), and its signed
  token is the signature of exactly the document and editor sections that are loaded:
  the claim set holds the final URLs, and nothing changes them after the signature.
\<close>

theorem request_token_appended_before_signing:
  assumes "jwtSecret s \<noteq> []" and "trim (jwtSecret s) \<noteq> []"
    and "useRequestToken s \<noteq> Some False"
    and "loadDirectOnlyOfficeInterface SignJWT s ts iat a = Some r"
  shows "\<exists>requestToken t.
           SignJWT (RequestClaims (arg_uniqueKey a) ts) (jwtSecret s) = Some requestToken \<and>
           encodeURIComponent requestToken = Some t \<and>
           append_token requestToken (documentUrl a) = Some (url (document (config r))) \<and>
           append_token requestToken (arg_callbackUrl a) = Some (callbackUrl (editorConfig (config r))) \<and>
           append_token requestToken (createUrl (editorConfig (initial_config a)))
             = Some (createUrl (editorConfig (config r))) \<and>
           append_token requestToken (saveAsUrl (editorConfig (initial_config a)))
             = Some (saveAsUrl (editorConfig (config r))) \<and>
           signedToken r \<noteq> None \<and>
           signedToken r =
             SignJWT (ConfigClaims (document (config r)) (editorConfig (config r)) iat) (jwtSecret s)"
proof -
  from assms obtain requestToken c signed where
    rt: "SignJWT (RequestClaims (arg_uniqueKey a) ts) (jwtSecret s) = Some requestToken"
    and c: "append_request_token requestToken (initial_config a) = Some c"
    and sg: "SignJWT (ConfigClaims (document c) (editorConfig c) iat) (jwtSecret s) = Some signed"
    and r: "r = \<lparr>config = c, signedToken = Some signed\<rparr>"
    by (auto simp: loadDirectOnlyOfficeInterface_def split: Option.bind_splits)
  from append_request_token_urls [OF c] obtain t where
    "encodeURIComponent requestToken = Some t"
    "append_token requestToken (url (document (initial_config a))) = Some (url (document c))"
    "append_token requestToken (callbackUrl (editorConfig (initial_config a)))
       = Some (callbackUrl (editorConfig c))"
    "append_token requestToken (createUrl (editorConfig (initial_config a)))
       = Some (createUrl (editorConfig c))"
    "append_token requestToken (saveAsUrl (editorConfig (initial_config a)))
       = Some (saveAsUrl (editorConfig c))"
    by blast
  moreover have "url (document (initial_config a)) = documentUrl a"
    "callbackUrl (editorConfig (initial_config a)) = arg_callbackUrl a"
    by (simp_all add: initial_config_def)
  ultimately show ?thesis
    using rt sg r by auto
qed

lemma example_encode: "encodeURIComponent (js ''aaa.bbb.ccc'') = Some (js ''aaa.bbb.ccc'')"
  by (simp add: js_def uri_unreserved_def is_digit_def is_lower_def is_upper_def)

lemma example_trim: "trim (jwtSecret example_settings) \<noteq> []"
  by (simp add: trim_def example_settings_def js_def white_space_def line_terminator_def)

lemma example_initial:
  "initial_config example_args =
     \<lparr>documentType = js ''word'',
      document = \<lparr>fileType = js ''docx'', key = js ''oo_abc123_xy9'', title = js ''report.docx'',
                  url = js ''http://host.docker.internal:8081/Notes/report.docx''\<rparr>,
      editorConfig =
        \<lparr>callbackUrl = js ''http://host.docker.internal:8082/callback'',
         createUrl = js ''http://127.0.0.1:8081/api/createNew?fileType=word'',
         saveAsUrl = js ''http://127.0.0.1:8081/api/saveAs''\<rparr>\<rparr>"
  by (simp add: initial_config_def example_args_def documentType_of_def documentUrl_def
        toString_int_def toString_radix.simps digit_char_def js_def)

lemma example_appended:
  "append_token (js ''aaa.bbb.ccc'') (js ''http://host.docker.internal:8081/Notes/report.docx'')
     = Some (js ''http://host.docker.internal:8081/Notes/report.docx?token=aaa.bbb.ccc'')"
  "append_token (js ''aaa.bbb.ccc'') (js ''http://host.docker.internal:8082/callback'')
     = Some (js ''http://host.docker.internal:8082/callback?token=aaa.bbb.ccc'')"
  "append_token (js ''aaa.bbb.ccc'') (js ''http://127.0.0.1:8081/api/createNew?fileType=word'')
     = Some (js ''http://127.0.0.1:8081/api/createNew?fileType=word&token=aaa.bbb.ccc'')"
  "append_token (js ''aaa.bbb.ccc'') (js ''http://127.0.0.1:8081/api/saveAs'')
     = Some (js ''http://127.0.0.1:8081/api/saveAs?token=aaa.bbb.ccc'')"
  by (simp_all add: append_token_def example_encode) (simp_all add: js_def startsWith_def)


lemma example_loaded:
  "loadDirectOnlyOfficeInterface example_signer example_settings 1700000000 1700000001 example_args =
     Some \<lparr>config =
             \<lparr>documentType = js ''word'',
              document =
                \<lparr>fileType = js ''docx'', key = js ''oo_abc123_xy9'', title = js ''report.docx'',
                 url = js ''http://host.docker.internal:8081/Notes/report.docx?token=aaa.bbb.ccc''\<rparr>,
              editorConfig =
                \<lparr>callbackUrl = js ''http://host.docker.internal:8082/callback?token=aaa.bbb.ccc'',
                 createUrl =
                   js ''http://127.0.0.1:8081/api/createNew?fileType=word&token=aaa.bbb.ccc'',
                 saveAsUrl = js ''http://127.0.0.1:8081/api/saveAs?token=aaa.bbb.ccc''\<rparr>\<rparr>,
           signedToken = Some (js ''xxx.yyy.zzz'')\<rparr>"
proof -
  have secret: "jwtSecret example_settings \<noteq> []" "useRequestToken example_settings \<noteq> Some False"
    by (simp_all add: example_settings_def js_def)
  show ?thesis
    by (simp add: loadDirectOnlyOfficeInterface_def secret example_trim example_signer_def
          append_request_token_def example_initial example_appended)
qed

theorem request_token_appended_before_signing_witness:
  "map_option (\<lambda>r. (url (document (config r)), callbackUrl (editorConfig (config r)),
                     createUrl (editorConfig (config r)), saveAsUrl (editorConfig (config r)),
                     signedToken r))
     (loadDirectOnlyOfficeInterface example_signer example_settings 1700000000 1700000001
        example_args)
   = Some (js ''http://host.docker.internal:8081/Notes/report.docx?token=aaa.bbb.ccc'',
           js ''http://host.docker.internal:8082/callback?token=aaa.bbb.ccc'',
           js ''http://127.0.0.1:8081/api/createNew?fileType=word&token=aaa.bbb.ccc'',
           js ''http://127.0.0.1:8081/api/saveAs?token=aaa.bbb.ccc'',
           example_signer
             (ConfigClaims
                \<lparr>fileType = js ''docx'', key = js ''oo_abc123_xy9'', title = js ''report.docx'',
                 url = js ''http://host.docker.internal:8081/Notes/report.docx?token=aaa.bbb.ccc''\<rparr>
                \<lparr>callbackUrl = js ''http://host.docker.internal:8082/callback?token=aaa.bbb.ccc'',
                 createUrl =
                   js ''http://127.0.0.1:8081/api/createNew?fileType=word&token=aaa.bbb.ccc'',
                 saveAsUrl = js ''http://127.0.0.1:8081/api/saveAs?token=aaa.bbb.ccc''\<rparr>
                1700000001)
             (js ''your-secret-key-please-change''))"
proof -
  have secret: "jwtSecret example_settings \<noteq> []" "useRequestToken example_settings \<noteq> Some False"
    by (simp_all add: example_settings_def js_def)
  have rt: "example_signer (RequestClaims (arg_uniqueKey example_args) 1700000000)
              (jwtSecret example_settings) = Some (js ''aaa.bbb.ccc'')"
    by (simp add: example_signer_def)
  have urls: "documentUrl example_args = js ''http://host.docker.internal:8081/Notes/report.docx''"
    "arg_callbackUrl example_args = js ''http://host.docker.internal:8082/callback''"
    by (simp_all add: documentUrl_def example_args_def)
  show ?thesis
    using request_token_appended_before_signing
            [OF secret(1) example_trim secret(2) example_loaded]
    by (simp add: rt urls example_initial example_appended example_loaded)
       (simp add: example_settings_def example_signer_def)
qed
section \<open>Properties of the naming of new documents\<close>

lemma decimal_value:
  "foldl (\<lambda>n c. 10 * n + (c - 48)) 0 (toString_radix 10 n) = n"
proof (induction "10 :: nat" n rule: toString_radix.induct)
  case (1 n)
  show ?case
  proof (cases "n < 10")
    case True
    then show ?thesis
      by (subst toString_radix.simps) (simp add: digit_char_def)
  next
    case False
    have "n mod 10 < 10" by simp
    then have d: "digit_char (n mod 10) - 48 = n mod 10"
      by (simp add: digit_char_def)
    from False 1 have "foldl (\<lambda>n c. 10 * n + (c - 48)) 0 (toString_radix 10 (n div 10)) = n div 10"
      by simp
    with False d show ?thesis
      by (subst toString_radix.simps) simp
  qed
qed

lemma decimal_inject: "toString_radix 10 i = toString_radix 10 j \<Longrightarrow> i = j"
  by (metis decimal_value)

lemma candidate_inject: "candidate base t i = candidate base t j \<Longrightarrow> i = j"
  by (auto simp: candidate_def dest: decimal_inject)

lemma free_candidate_exists:
  assumes "finite (dom v)"
  shows "\<exists>i \<ge> k. v (candidate base t i) = None"
proof (rule ccontr)
  assume "\<not> (\<exists>i \<ge> k. v (candidate base t i) = None)"
  then have "candidate base t ` {k..} \<subseteq> dom v"
    by auto
  with assms have "finite (candidate base t ` {k..})"
    by (rule rev_finite_subset)
  moreover have "inj_on (candidate base t) {k..}"
    by (auto simp: inj_on_def dest: candidate_inject)
  ultimately have "finite {k..}"
    by (rule finite_imageD)
  then show False
    by (simp add: infinite_Ici)
qed

lemma next_candidate_least:
  assumes "k \<le> m" and "v (candidate base t m) = None"
    and "\<forall>j. k \<le> j \<and> j < m \<longrightarrow> v (candidate base t j) \<noteq> None"
  shows "next_candidate v base t k = Some (candidate base t m)"
  using assms
proof (induction "m - k" arbitrary: k)
  case 0
  then have "k = m" by simp
  with 0 show ?case
    by (subst next_candidate.simps) simp
next
  case (Suc d)
  then have "k < m" by simp
  with Suc.prems have taken: "v (candidate base t k) \<noteq> None"
    by simp
  have "next_candidate v base t (k + 1) = Some (candidate base t m)"
  proof (rule Suc.hyps(1))
    show "d = m - (k + 1)" using Suc.hyps(2) by simp
    show "k + 1 \<le> m" using \<open>k < m\<close> by simp
    show "v (candidate base t m) = None" by (rule Suc.prems(2))
    show "\<forall>j. k + 1 \<le> j \<and> j < m \<longrightarrow> v (candidate base t j) \<noteq> None"
      using Suc.prems(3) by simp
  qed
  with taken show ?case
    by (subst next_candidate.simps) simp
qed

lemma next_candidate_returns:
  assumes "finite (dom v)"
  shows "\<exists>i \<ge> k. next_candidate v base t k = Some (candidate base t i) \<and>
           v (candidate base t i) = None \<and>
           (\<forall>j. k \<le> j \<and> j < i \<longrightarrow> v (candidate base t j) \<noteq> None)"
proof -
  define P where "P i \<longleftrightarrow> k \<le> i \<and> v (candidate base t i) = None" for i
  from free_candidate_exists [OF assms] have ex: "\<exists>i. P i"
    by (auto simp: P_def)
  from exists_least_iff [THEN iffD1, OF ex] obtain m where Pm: "P m" and least: "\<forall>j<m. \<not> P j"
    by blast
  have "next_candidate v base t k = Some (candidate base t m)"
  proof (rule next_candidate_least)
    show "k \<le> m" using Pm by (simp add: P_def)
    show "v (candidate base t m) = None" using Pm by (simp add: P_def)
    show "\<forall>j. k \<le> j \<and> j < m \<longrightarrow> v (candidate base t j) \<noteq> None"
      using least by (auto simp: P_def)
  qed
  moreover have "k \<le> m" "v (candidate base t m) = None"
    using Pm by (simp_all add: P_def)
  moreover have "\<forall>j. k \<le> j \<and> j < m \<longrightarrow> v (candidate base t j) \<noteq> None"
    using least by (auto simp: P_def)
  ultimately show ?thesis
    by blast
qed

lemma type_name_lower: "map ascii_lower (type_name t) = type_name t"
  by (cases t) (simp_all add: type_name_def ascii_lower_def is_upper_def js_def)

lemma length_type_name: "length (type_name t) = 4"
  by (cases t) (simp_all add: type_name_def js_def)

lemma extension_test:
  assumes "map ascii_lower e = type_name t"
  shows "extRegex_test t (b @ js ''.'' @ e)" and "extRegex_remove t (b @ js ''.'' @ e) = b"
proof -
  have len: "length e = 4"
    using assms length_type_name [of t] by (metis length_map)
  then show "extRegex_test t (b @ js ''.'' @ e)"
    using assms
    by (simp add: extRegex_test_def Let_def length_type_name js_def nth_append line_terminator_def)
  then show "extRegex_remove t (b @ js ''.'' @ e) = b"
    using len by (simp add: extRegex_remove_def length_type_name js_def)
qed

lemma requested_file_name_unfold:
  assumes "sanitize typed = n" and "n \<noteq> []"
  shows "requested_file_name v typed t =
           (let full = (if extRegex_test t n then n else n @ js ''.'' @ type_name t)
            in if v full \<noteq> None
               then map_option FileName (next_candidate v (extRegex_remove t full) t 1)
               else Some (FileName full))"
  using assms by (simp add: requested_file_name_def Let_def)

lemma requested_file_name_free:
  assumes "finite (dom v)" and "sanitize typed = n" and "n \<noteq> []"
  shows "\<exists>f. requested_file_name v typed t = Some (FileName f) \<and> v f = None"
proof -
  define full where "full = (if extRegex_test t n then n else n @ js ''.'' @ type_name t)"
  show ?thesis
  proof (cases "v full = None")
    case True
    then have "requested_file_name v typed t = Some (FileName full)"
      using requested_file_name_unfold [OF assms(2,3), of v t] by (simp add: full_def Let_def)
    with True show ?thesis by blast
  next
    case False
    from next_candidate_returns [OF assms(1), of 1 "extRegex_remove t full" t]
    obtain i where "next_candidate v (extRegex_remove t full) t 1
                      = Some (candidate (extRegex_remove t full) t i)"
      and "v (candidate (extRegex_remove t full) t i) = None"
      by blast
    with False show ?thesis
      using requested_file_name_unfold [OF assms(2,3), of v t] by (simp add: full_def Let_def)
  qed
qed

text \<open>
  C7, as the code has it. In a vault with finitely many entries, let \<open>n\<close> be the typed
  name after the forbidden characters and the surrounding white space are removed, and let
  it be non-empty. If \<open>n\<close> does not end in a character followed by the type, the file is
  \<open>n.T\<close> when that is free, and otherwise \<open>n (i).T\<close> for the least \<open>i\<close> from 1 on whose
  name is free: \<open>n (1).T\<close> when only \<open>n.T\<close> exists. If \<open>n\<close> was typed with the extension
  (\<open>b.T\<close>, in any case of the letters), the file is \<open>n\<close> itself when that is free, and
  otherwise \<open>b (i).T\<close> for the least such \<open>i\<close>. In every case a name is found that is
  free, so that creating the file succeeds.
\<close>

theorem new_document_name_avoids_collisions:
  assumes "finite (dom v)" and "sanitize typed = n" and "n \<noteq> []"
  shows "(\<not> extRegex_test t n \<longrightarrow>
            (v (n @ js ''.'' @ type_name t) = None \<longrightarrow>
               requested_file_name v typed t = Some (FileName (n @ js ''.'' @ type_name t))) \<and>
            (v (n @ js ''.'' @ type_name t) \<noteq> None \<longrightarrow>
               (\<exists>i \<ge> 1. requested_file_name v typed t = Some (FileName (candidate n t i)) \<and>
                  v (candidate n t i) = None \<and>
                  (\<forall>j. 1 \<le> j \<and> j < i \<longrightarrow> v (candidate n t j) \<noteq> None)))) \<and>
         (n = b @ js ''.'' @ e \<and> map ascii_lower e = type_name t \<longrightarrow>
            (v n = None \<longrightarrow> requested_file_name v typed t = Some (FileName n)) \<and>
            (v n \<noteq> None \<longrightarrow>
               (\<exists>i \<ge> 1. requested_file_name v typed t = Some (FileName (candidate b t i)) \<and>
                  v (candidate b t i) = None \<and>
                  (\<forall>j. 1 \<le> j \<and> j < i \<longrightarrow> v (candidate b t j) \<noteq> None)))) \<and>
         candidate n t 1 = n @ js '' (1).'' @ type_name t \<and>
         (\<exists>f. requested_file_name v typed t = Some (FileName f) \<and> v f = None \<and>
              createBinary v f data = Some (v(f \<mapsto> TFile data)))"
proof -
  note unfold = requested_file_name_unfold [OF assms(2,3), of v t]
  have plain: "(v (n @ js ''.'' @ type_name t) = None \<longrightarrow>
               requested_file_name v typed t = Some (FileName (n @ js ''.'' @ type_name t))) \<and>
            (v (n @ js ''.'' @ type_name t) \<noteq> None \<longrightarrow>
               (\<exists>i \<ge> 1. requested_file_name v typed t = Some (FileName (candidate n t i)) \<and>
                  v (candidate n t i) = None \<and>
                  (\<forall>j. 1 \<le> j \<and> j < i \<longrightarrow> v (candidate n t j) \<noteq> None)))"
    if no: "\<not> extRegex_test t n"
  proof -
    have rm: "extRegex_remove t (n @ js ''.'' @ type_name t) = n"
      by (rule extension_test(2)) (rule type_name_lower)
    from next_candidate_returns [OF assms(1), of 1 n t] obtain i where
      "1 \<le> i" "next_candidate v n t 1 = Some (candidate n t i)" "v (candidate n t i) = None"
      "\<forall>j. 1 \<le> j \<and> j < i \<longrightarrow> v (candidate n t j) \<noteq> None"
      by blast
    then show ?thesis
      using unfold no rm by (auto simp: Let_def)
  qed
  have typed_ext: "(v n = None \<longrightarrow> requested_file_name v typed t = Some (FileName n)) \<and>
            (v n \<noteq> None \<longrightarrow>
               (\<exists>i \<ge> 1. requested_file_name v typed t = Some (FileName (candidate b t i)) \<and>
                  v (candidate b t i) = None \<and>
                  (\<forall>j. 1 \<le> j \<and> j < i \<longrightarrow> v (candidate b t j) \<noteq> None)))"
    if n: "n = b @ js ''.'' @ e" and e: "map ascii_lower e = type_name t"
  proof -
    have test: "extRegex_test t n" and rm: "extRegex_remove t n = b"
      unfolding n using e by (rule extension_test)+
    from next_candidate_returns [OF assms(1), of 1 b t] obtain i where
      "1 \<le> i" "next_candidate v b t 1 = Some (candidate b t i)" "v (candidate b t i) = None"
      "\<forall>j. 1 \<le> j \<and> j < i \<longrightarrow> v (candidate b t j) \<noteq> None"
      by blast
    then show ?thesis
      using unfold test rm by (auto simp: Let_def)
  qed
  have one: "candidate n t 1 = n @ js '' (1).'' @ type_name t"
    by (simp add: candidate_def toString_radix.simps digit_char_def js_def)
  from requested_file_name_free [OF assms, of t] obtain f where
    f: "requested_file_name v typed t = Some (FileName f)" "v f = None"
    by blast
  then have "createBinary v f data = Some (v(f \<mapsto> TFile data))"
    by (simp add: createBinary_def)
  with f have created: "\<exists>f. requested_file_name v typed t = Some (FileName f) \<and> v f = None \<and>
              createBinary v f data = Some (v(f \<mapsto> TFile data))"
    by blast
  from plain typed_ext one created show ?thesis
    by blast
qed

lemma sanitize_Draft:
  "sanitize (js ''Draft'') = js ''Draft''"
  "sanitize (js ''Draft.xlsx'') = js ''Draft.xlsx''"
  "sanitize (js '' Draft?.XLSX '') = js ''Draft.XLSX''"
  by (simp_all add: sanitize_def trim_def forbidden_def white_space_def line_terminator_def js_def)

lemma Draft_has_no_extension: "\<not> extRegex_test Xlsx (js ''Draft'')"
  by (simp add: extRegex_test_def type_name_def js_def ascii_lower_def is_upper_def)

lemma candidates_Draft:
  "candidate (js ''Draft'') Xlsx 1 = js ''Draft (1).xlsx''"
  "candidate (js ''Draft'') Xlsx 2 = js ''Draft (2).xlsx''"
  "candidate (js ''Draft'') Xlsx 3 = js ''Draft (3).xlsx''"
  by (simp_all add: candidate_def toString_radix.simps digit_char_def type_name_def js_def)

lemma finite_examples: "finite (dom draft_vault)" "finite (dom drafts_vault)"
  by (simp_all add: draft_vault_def drafts_vault_def)

lemma nonempty_examples: "js ''Draft'' \<noteq> []" "js ''Draft.XLSX'' \<noteq> []"
  by (simp_all add: js_def)

theorem new_document_name_avoids_collisions_witness:
  "requested_file_name draft_vault (js ''Draft'') Xlsx = Some (FileName (js ''Draft (1).xlsx'')) \<and>
   requested_file_name drafts_vault (js ''Draft'') Xlsx = Some (FileName (js ''Draft (3).xlsx'')) \<and>
   requested_file_name draft_vault (js '' Draft?.XLSX '') Xlsx = Some (FileName (js ''Draft.XLSX''))"
proof -
  have taken: "draft_vault (js ''Draft'' @ js ''.'' @ type_name Xlsx) \<noteq> None"
    "drafts_vault (js ''Draft'' @ js ''.'' @ type_name Xlsx) \<noteq> None"
    by (simp_all add: draft_vault_def drafts_vault_def type_name_def js_def)
  have free1: "draft_vault (candidate (js ''Draft'') Xlsx 1) = None"
    unfolding candidates_Draft by (simp add: draft_vault_def js_def)
  have state: "drafts_vault (candidate (js ''Draft'') Xlsx 1) \<noteq> None"
    "drafts_vault (candidate (js ''Draft'') Xlsx 2) \<noteq> None"
    "drafts_vault (candidate (js ''Draft'') Xlsx 3) = None"
    unfolding candidates_Draft by (simp_all add: drafts_vault_def js_def)
  have first: "requested_file_name draft_vault (js ''Draft'') Xlsx
                 = Some (FileName (js ''Draft (1).xlsx''))"
  proof -
    from new_document_name_avoids_collisions
           [OF finite_examples(1) sanitize_Draft(1) nonempty_examples(1),
            where t = Xlsx and b = "[]" and e = "[]" and data = "[]", THEN conjunct1]
         Draft_has_no_extension taken(1)
    obtain i where i: "1 \<le> i"
      "requested_file_name draft_vault (js ''Draft'') Xlsx
         = Some (FileName (candidate (js ''Draft'') Xlsx i))"
      "\<forall>j. 1 \<le> j \<and> j < i \<longrightarrow> draft_vault (candidate (js ''Draft'') Xlsx j) \<noteq> None"
      by blast
    have "i = 1"
    proof (rule ccontr)
      assume "i \<noteq> 1"
      with i(1) have "1 < i" by simp
      with i(3) free1 show False by auto
    qed
    with i(2) show ?thesis
      by (simp only: candidates_Draft)
  qed
  have second: "requested_file_name drafts_vault (js ''Draft'') Xlsx
                  = Some (FileName (js ''Draft (3).xlsx''))"
  proof -
    from new_document_name_avoids_collisions
           [OF finite_examples(2) sanitize_Draft(1) nonempty_examples(1),
            where t = Xlsx and b = "[]" and e = "[]" and data = "[]", THEN conjunct1]
         Draft_has_no_extension taken(2)
    obtain i where i: "1 \<le> i"
      "requested_file_name drafts_vault (js ''Draft'') Xlsx
         = Some (FileName (candidate (js ''Draft'') Xlsx i))"
      "drafts_vault (candidate (js ''Draft'') Xlsx i) = None"
      "\<forall>j. 1 \<le> j \<and> j < i \<longrightarrow> drafts_vault (candidate (js ''Draft'') Xlsx j) \<noteq> None"
      by blast
    have "i = 3"
    proof (rule ccontr)
      assume "i \<noteq> 3"
      with i(1) consider "i = 1" | "i = 2" | "3 < i" by linarith
      then show False
      proof cases
        case 1 with i(3) state(1) show False by simp
      next
        case 2 with i(3) state(2) show False by simp
      next
        case 3
        with i(4) have "drafts_vault (candidate (js ''Draft'') Xlsx 3) \<noteq> None"
          by (metis one_le_numeral)
        with state(3) show False by simp
      qed
    qed
    with i(2) show ?thesis
      by (simp only: candidates_Draft)
  qed
  have third: "requested_file_name draft_vault (js '' Draft?.XLSX '') Xlsx
                 = Some (FileName (js ''Draft.XLSX''))"
  proof -
    have "js ''Draft.XLSX'' = js ''Draft'' @ js ''.'' @ js ''XLSX''"
      "map ascii_lower (js ''XLSX'') = type_name Xlsx"
      "draft_vault (js ''Draft.XLSX'') = None"
      by (simp_all add: js_def ascii_lower_def is_upper_def type_name_def draft_vault_def)
    with new_document_name_avoids_collisions
           [OF finite_examples(1) sanitize_Draft(3) nonempty_examples(2),
            where b = "js ''Draft''" and e = "js ''XLSX''" and t = Xlsx and data = "[]",
            THEN conjunct2, THEN conjunct1]
    show ?thesis
      by simp
  qed
  from first second third show ?thesis
    by simp
qed

text \<open>
  Where the claim as written fails: a name typed with its extension. For the requested
  name \<^verbatim>\<open>Draft.xlsx\<close> and the type \<^verbatim>\<open>xlsx\<close>, the name with the type appended is
  \<^verbatim>\<open>Draft.xlsx.xlsx\<close>; in a vault that holds this file, the new file is \<^verbatim>\<open>Draft.xlsx\<close> and
  not \<^verbatim>\<open>Draft.xlsx (1).xlsx\<close>.
\<close>

theorem typed_extension_counterexample:
  "sanitize (js ''Draft.xlsx'') = js ''Draft.xlsx'' \<and>
   double_extension_vault (js ''Draft.xlsx'' @ js ''.'' @ type_name Xlsx) = Some (TFile []) \<and>
   requested_file_name double_extension_vault (js ''Draft.xlsx'') Xlsx
     = Some (FileName (js ''Draft.xlsx'')) \<and>
   candidate (js ''Draft.xlsx'') Xlsx 1 = js ''Draft.xlsx (1).xlsx''"
proof -
  have "extRegex_test Xlsx (js ''Draft.xlsx'')"
    by (simp add: extRegex_test_def type_name_def js_def ascii_lower_def is_upper_def
          line_terminator_def)
  moreover have "double_extension_vault (js ''Draft.xlsx'') = None"
    by (simp add: double_extension_vault_def js_def)
  ultimately have "requested_file_name double_extension_vault (js ''Draft.xlsx'') Xlsx
     = Some (FileName (js ''Draft.xlsx''))"
    using requested_file_name_unfold [OF sanitize_Draft(2), of double_extension_vault Xlsx]
    by (simp add: js_def)
  moreover have "double_extension_vault (js ''Draft.xlsx'' @ js ''.'' @ type_name Xlsx)
     = Some (TFile [])"
    by (simp add: double_extension_vault_def type_name_def js_def)
  moreover have "candidate (js ''Draft.xlsx'') Xlsx 1 = js ''Draft.xlsx (1).xlsx''"
    by (simp add: candidate_def toString_radix.simps digit_char_def type_name_def js_def)
  ultimately show ?thesis
    by (simp add: sanitize_Draft)
qed

section \<open>Properties of the static file server\<close>

lemma split_on_nonempty: "split_on c xs \<noteq> []"
  by (induction xs) (auto split: list.splits)

lemma split_on_append: "split_on c (a @ c # b) = split_on c a @ split_on c b"
proof (induction a)
  case Nil
  show ?case by simp
next
  case (Cons x a)
  show ?case
  proof (cases "x = c")
    case True
    with Cons show ?thesis by simp
  next
    case False
    obtain s ss where s: "split_on c a = s # ss"
      using split_on_nonempty [of c a] by (cases "split_on c a") auto
    with False Cons show ?thesis by simp
  qed
qed

lemma split_on_no_separator: "c \<notin> set s \<Longrightarrow> split_on c s = [s]"
  by (induction s) auto

lemma split_on_segments: "s \<in> set (split_on c xs) \<Longrightarrow> c \<notin> set s"
proof (induction xs arbitrary: s)
  case Nil
  then show ?case by simp
next
  case (Cons x xs)
  show ?case
  proof (cases "x = c")
    case True
    with Cons show ?thesis by auto
  next
    case False
    obtain t ts where t: "split_on c xs = t # ts"
      using split_on_nonempty [of c xs] by (cases "split_on c xs") auto
    with False Cons.prems have "s = x # t \<or> s \<in> set ts"
      by simp
    then show ?thesis
    proof
      assume "s = x # t"
      moreover have "c \<notin> set t"
        using Cons.IH [of t] t by simp
      ultimately show ?thesis
        using False by simp
    next
      assume "s \<in> set ts"
      then show ?thesis
        using Cons.IH [of s] t by simp
    qed
  qed
qed

lemma normal_form_empty: "normal_form absolute []"
  by (simp add: normal_form_def)

lemma push_segment_normal:
  assumes "normal_form absolute stack" and "47 \<notin> set seg"
  shows "normal_form absolute (push_segment absolute stack seg)"
proof -
  let ?dd = "js ''..''"
  consider (skip) "seg = [] \<or> seg = js ''.''"
    | (pop) "seg = ?dd" "stack \<noteq> []" "last stack \<noteq> ?dd"
    | (root) "seg = ?dd" "\<not> (stack \<noteq> [] \<and> last stack \<noteq> ?dd)" "absolute"
    | (up) "seg = ?dd" "\<not> (stack \<noteq> [] \<and> last stack \<noteq> ?dd)" "\<not> absolute"
    | (push) "seg \<noteq> []" "seg \<noteq> js ''.''" "seg \<noteq> ?dd"
    by blast
  then show ?thesis
  proof cases
    case skip
    with assms show ?thesis
      by (auto simp: push_segment_def)
  next
    case pop
    then have p: "push_segment absolute stack seg = butlast stack"
      by (simp add: push_segment_def js_def)
    from pop obtain pre x where s: "stack = pre @ [x]" and x: "x \<noteq> ?dd"
      by (metis append_butlast_last_id)
    have "?dd \<notin> set (dropWhile (\<lambda>s. s = ?dd) pre)"
    proof (cases "\<forall>y \<in> set pre. y = ?dd")
      case True
      then have e: "dropWhile (\<lambda>s. s = ?dd) pre = []"
        by (simp add: dropWhile_eq_Nil_conv)
      show ?thesis
        unfolding e by simp
    next
      case False
      then have "dropWhile (\<lambda>s. s = ?dd) stack = dropWhile (\<lambda>s. s = ?dd) pre @ [x]"
        unfolding s by (auto simp: dropWhile_append1)
      with assms(1) show ?thesis
        by (auto simp: normal_form_def)
    qed
    moreover have "push_segment absolute stack seg = pre"
      using p s by simp
    ultimately show ?thesis
      using assms(1) unfolding s normal_form_def by auto
  next
    case root
    with assms show ?thesis
      by (auto simp: push_segment_def js_def)
  next
    case up
    then have p: "push_segment absolute stack seg = stack @ [?dd]"
      by (auto simp: push_segment_def js_def)
    have all: "\<forall>y \<in> set stack. y = ?dd"
    proof (cases "stack = []")
      case True
      then show ?thesis by simp
    next
      case False
      with up have l: "last stack = ?dd"
        by simp
      show ?thesis
      proof (rule ccontr)
        assume "\<not> (\<forall>y \<in> set stack. y = ?dd)"
        then have "dropWhile (\<lambda>s. s = ?dd) stack \<noteq> []"
          by auto
        then have "last (dropWhile (\<lambda>s. s = ?dd) stack) = last stack"
          by (metis append_is_Nil_conv last_appendR takeWhile_dropWhile_id)
        with l \<open>dropWhile (\<lambda>s. s = ?dd) stack \<noteq> []\<close>
        have "?dd \<in> set (dropWhile (\<lambda>s. s = ?dd) stack)"
          by (metis last_in_set)
        with assms(1) show False
          by (simp add: normal_form_def)
      qed
    qed
    then have e: "dropWhile (\<lambda>s. s = ?dd) (stack @ [?dd]) = []"
      by (simp add: dropWhile_eq_Nil_conv)
    have "?dd \<noteq> []" "?dd \<noteq> js ''.''" "47 \<notin> set ?dd"
      by (simp_all add: js_def)
    with assms(1) up(3) show ?thesis
      unfolding p normal_form_def e by auto
  next
    case push
    then have p: "push_segment absolute stack seg = stack @ [seg]"
      by (simp add: push_segment_def)
    have "?dd \<notin> set (dropWhile (\<lambda>s. s = ?dd) (stack @ [seg]))"
    proof (cases "\<forall>y \<in> set stack. y = ?dd")
      case True
      then have "dropWhile (\<lambda>s. s = ?dd) (stack @ [seg]) = [seg]"
        using push(3) by (simp add: dropWhile_append2)
      with push(3) show ?thesis by simp
    next
      case False
      then have "dropWhile (\<lambda>s. s = ?dd) (stack @ [seg]) = dropWhile (\<lambda>s. s = ?dd) stack @ [seg]"
        by (auto simp: dropWhile_append1)
      with assms(1) push(3) show ?thesis
        by (auto simp: normal_form_def)
    qed
    with assms push show ?thesis
      unfolding p by (auto simp: normal_form_def)
  qed
qed

lemma foldl_push_normal:
  assumes "normal_form absolute stack" and "\<forall>seg \<in> set segs. 47 \<notin> set seg"
  shows "normal_form absolute (foldl (push_segment absolute) stack segs)"
  using assms
proof (induction segs arbitrary: stack)
  case Nil
  then show ?case by simp
next
  case (Cons seg segs)
  then show ?case
    by (simp add: push_segment_normal)
qed

lemma location_normal: "normal_form (isAbsolute p) (location p)"
  unfolding location_def segments_def
  by (rule foldl_push_normal [OF normal_form_empty]) (auto dest: split_on_segments)

lemma foldl_push_fixed:
  assumes "normal_form absolute (pre @ segs)"
  shows "foldl (push_segment absolute) pre segs = pre @ segs"
  using assms
proof (induction segs arbitrary: pre)
  case Nil
  show ?case by simp
next
  case (Cons seg segs)
  let ?dd = "js ''..''"
  have seg: "seg \<noteq> []" "seg \<noteq> js ''.''"
    using Cons.prems by (auto simp: normal_form_def)
  have "push_segment absolute pre seg = pre @ [seg]"
  proof (cases "seg = ?dd")
    case False
    with seg show ?thesis
      by (simp add: push_segment_def)
  next
    case True
    with Cons.prems have rel: "\<not> absolute"
      by (auto simp: normal_form_def)
    have all: "\<forall>y \<in> set pre. y = ?dd"
    proof (rule ccontr)
      assume "\<not> (\<forall>y \<in> set pre. y = ?dd)"
      then have "dropWhile (\<lambda>s. s = ?dd) (pre @ seg # segs)
                   = dropWhile (\<lambda>s. s = ?dd) pre @ seg # segs"
        by (auto simp: dropWhile_append1)
      with Cons.prems True show False
        by (auto simp: normal_form_def)
    qed
    then have "pre = [] \<or> last pre = ?dd"
      by (cases "pre = []") auto
    with True rel show ?thesis
      by (auto simp: push_segment_def js_def)
  qed
  moreover have "normal_form absolute ((pre @ [seg]) @ segs)"
    using Cons.prems by simp
  ultimately show ?case
    using Cons.IH [of "pre @ [seg]"] by simp
qed
lemma join_segments_starts: "\<exists>r. join_segments (s # rest) = s @ r"
  by (cases rest) simp_all

lemma split_on_join_segments:
  assumes "segs \<noteq> []" and "\<forall>s \<in> set segs. 47 \<notin> set s"
  shows "split_on 47 (join_segments segs) = segs"
  using assms
proof (induction segs rule: join_segments.induct)
  case 1
  then show ?case by simp
next
  case (2 s)
  then show ?case
    by (simp add: split_on_no_separator)
next
  case (3 s t ss)
  have "join_segments (s # t # ss) = s @ 47 # join_segments (t # ss)"
    by (simp add: js_def)
  then have "split_on 47 (join_segments (s # t # ss))
               = split_on 47 s @ split_on 47 (join_segments (t # ss))"
    by (simp only: split_on_append)
  with 3 show ?case
    by (simp add: split_on_no_separator)
qed

lemma push_segment_skip: "push_segment absolute stack [] = stack"
  by (simp add: push_segment_def)

lemma location_short:
  "location (js ''/'') = []" "location (js ''./'') = []" "location (js ''.'') = []" "location [] = []"
  by (simp_all add: location_def segments_def push_segment_def isAbsolute_def startsWith_def js_def)

lemma location_normalize:
  assumes "p \<noteq> []"
  shows "location (normalize p) = location p"
proof (cases "location p = []")
  case True
  then have "normalize p = js ''/'' \<or> normalize p = js ''./'' \<or> normalize p = js ''.''"
    using assms by (auto simp: normalize_def Let_def)
  with True show ?thesis
    by (auto simp: location_short)
next
  case False
  let ?a = "isAbsolute p"
  let ?segs = "location p"
  let ?inner = "join_segments ?segs"
  let ?pre = "if ?a then [47] else []"
  let ?post = "if last p = 47 then [47] else []"
  have nf: "normal_form ?a ?segs"
    by (rule location_normal)
  from False obtain s rest where sr: "?segs = s # rest"
    by (cases ?segs) auto
  with nf have s: "s \<noteq> []" "47 \<notin> set s"
    by (auto simp: normal_form_def)
  from join_segments_starts [of s rest] sr obtain r where r: "?inner = s @ r"
    by auto
  with s have inner: "?inner \<noteq> []" "hd ?inner \<noteq> 47"
    by (cases s; auto)+
  have n: "normalize p = ?pre @ ?inner @ ?post"
    using assms inner by (auto simp: normalize_def Let_def js_def)
  have a: "isAbsolute (normalize p) = ?a"
    using inner unfolding n by (cases ?inner) (auto simp: isAbsolute_def startsWith_def js_def)
  have sep: "\<forall>s \<in> set ?segs. 47 \<notin> set s"
    using nf by (auto simp: normal_form_def)
  have inner_split: "split_on 47 ?inner = ?segs"
    by (rule split_on_join_segments [OF False sep])
  have post: "split_on 47 (?inner @ ?post) = ?segs @ (if last p = 47 then [] # [] else [])"
    using split_on_append [of 47 ?inner "[]"] inner_split by simp
  have "split_on 47 (normalize p)
          = (if ?a then [] # [] else []) @ ?segs @ (if last p = 47 then [] # [] else [])"
    unfolding n using split_on_append [of 47 "[]" "?inner @ ?post"] post by simp
  then have "location (normalize p) = foldl (push_segment ?a) [] ?segs"
    by (simp add: location_def [of "normalize p"] segments_def a push_segment_skip)
  also have "\<dots> = ?segs"
    using foldl_push_fixed [of ?a "[]" ?segs] nf by simp
  finally show ?thesis .
qed

lemma push_segment_extends:
  assumes "js ''..'' \<notin> set segs"
  shows "\<exists>more. foldl (push_segment absolute) stack segs = stack @ more"
  using assms
proof (induction segs arbitrary: stack)
  case Nil
  show ?case by simp
next
  case (Cons seg segs)
  then have "seg \<noteq> js ''..''" and rest: "js ''..'' \<notin> set segs"
    by auto
  then have "push_segment absolute stack seg = stack \<or> push_segment absolute stack seg = stack @ [seg]"
    by (simp add: push_segment_def)
  then show ?case
  proof
    assume "push_segment absolute stack seg = stack"
    with Cons.IH [OF rest, of stack] show ?thesis by simp
  next
    assume "push_segment absolute stack seg = stack @ [seg]"
    with Cons.IH [OF rest, of "stack @ [seg]"] show ?thesis by auto
  qed
qed

lemma within_joined:
  assumes "js ''..'' \<notin> set (segments rel)"
  shows "within root (joined root rel)"
proof (cases "root = [] \<or> rel = []")
  case True
  have "location [] = []"
    by (simp add: location_def segments_def push_segment_def)
  with True show ?thesis
    by (auto simp: within_def joined_def)
next
  case False
  then have j: "joined root rel = root @ 47 # rel"
    by (simp add: joined_def js_def)
  have abs: "isAbsolute (root @ 47 # rel) = isAbsolute root"
    using False by (cases root) (simp_all add: isAbsolute_def startsWith_def js_def)
  have "location (joined root rel)
      = foldl (push_segment (isAbsolute root)) (location root) (segments rel)"
    by (simp add: j location_def abs segments_def split_on_append)
  with push_segment_extends [OF assms, of "isAbsolute root" "location root"]
  obtain more where "location (joined root rel) = location root @ more"
    by auto
  then show ?thesis
    by (simp add: within_def)
qed

lemma within_posix_join:
  assumes "js ''..'' \<notin> set (segments rel)"
  shows "within root (posix_join root rel)"
proof (cases "joined root rel = []")
  case True
  then have "root = []"
    by (auto simp: joined_def split: if_splits)
  then show ?thesis
    by (simp add: within_def location_short)
next
  case False
  then have "location (posix_join root rel) = location (joined root rel)"
    by (simp add: posix_join_def location_normalize)
  with within_joined [OF assms, of root] show ?thesis
    by (simp add: within_def)
qed
lemma serve_page_contents:
  "payload (serve_page e name) = Contents data \<Longrightarrow>
   fs e (path_join e (resolvedPluginPath e) name) = Some (RegularFile data)"
  by (auto simp: serve_page_def split: option.splits fs_node.splits)

lemma serve_file_contents:
  "payload (serve_file e reqPath) = Contents data \<Longrightarrow>
   fs e (path_join e (vaultPath e) (strip_slash reqPath)) = Some (RegularFile data) \<or>
   \<not> isFile e (path_join e (vaultPath e) (strip_slash reqPath)) \<and>
   fs e (path_join e (resolvedPluginPath e) (strip_slash reqPath)) = Some (RegularFile data)"
  by (auto simp: serve_file_def isFile_def Let_def split: option.splits fs_node.splits)

lemma serve_file_vault:
  "fs e (path_join e (vaultPath e) (strip_slash reqPath)) = Some (RegularFile data) \<Longrightarrow>
   serve_file e reqPath = \<lparr>code = 200, payload = Contents data\<rparr>"
  by (simp add: serve_file_def)

lemma serve_file_plugin:
  "\<not> isFile e (path_join e (vaultPath e) (strip_slash reqPath)) \<Longrightarrow>
   fs e (path_join e (resolvedPluginPath e) (strip_slash reqPath)) = Some (RegularFile data) \<Longrightarrow>
   serve_file e reqPath = \<lparr>code = 200, payload = Contents data\<rparr>"
  by (auto simp: serve_file_def isFile_def Let_def split: option.splits fs_node.splits)

lemma serve_file_missing:
  "\<not> isFile e (path_join e (vaultPath e) (strip_slash reqPath)) \<Longrightarrow>
   \<not> isFile e (path_join e (resolvedPluginPath e) (strip_slash reqPath)) \<Longrightarrow>
   serve_file e reqPath
     = \<lparr>code = 404,
        payload = Text (js ''File not found: '' @ path_join e (vaultPath e) (strip_slash reqPath))\<rparr>"
  by (auto simp: serve_file_def isFile_def Let_def split: option.splits fs_node.splits)

lemma handle_path_file:
  assumes "decodeURIComponent (request_path u) = Some reqPath"
    and "reqPath \<notin> {js ''/api/createNew'', js ''/api/saveAs'', js ''/'', js ''/editor.html'',
                     js ''/embedded-editor.html''}"
  shows "handle_path e u = serve_file e reqPath"
  using assms by (simp add: handle_path_def)

lemma handle_path_contents:
  assumes "payload (handle_path e u) = Contents data"
  shows "\<exists>reqPath.
           decodeURIComponent (request_path u) = Some reqPath \<and>
           ((reqPath = js ''/'' \<or> reqPath = js ''/editor.html'') \<and>
              payload (serve_page e (js ''editor.html'')) = Contents data \<or>
            reqPath = js ''/embedded-editor.html'' \<and>
              payload (serve_page e (js ''embedded-editor.html'')) = Contents data \<or>
            reqPath \<notin> {js ''/api/createNew'', js ''/api/saveAs'', js ''/'', js ''/editor.html'',
                        js ''/embedded-editor.html''} \<and>
              payload (serve_file e reqPath) = Contents data)"
proof (cases "decodeURIComponent (request_path u)")
  case None
  with assms show ?thesis
    by (simp add: handle_path_def)
next
  case (Some reqPath)
  with assms show ?thesis
    by (auto simp: handle_path_def split: if_splits option.splits)
qed

text \<open>
  C1, as the code has it. The server sends the bytes of a file only in answer to a request
  that is neither \<^verbatim>\<open>OPTIONS\<close> nor \<^verbatim>\<open>HEAD\<close> and whose path could be decoded, and the file is
  \<^verbatim>\<open>editor.html\<close> or \<^verbatim>\<open>embedded-editor.html\<close> of the plugin directory (for their three fixed
  paths), or else, for a path other than the five fixed ones, the regular file at the
  decoded path joined to the vault root, or, when no regular file is there, the regular
  file at the decoded path joined to the plugin root.

  Conversely, such a request for a path other than the five fixed ones is answered with
  the regular file at the path joined to the vault root whenever there is one, otherwise
  with the regular file at the path joined to the plugin root whenever there is one, and
  otherwise with 404: wherever the joined path leads, no test confines it to the two
  roots.

  On a POSIX host, when the decoded path has no \<^verbatim>\<open>..\<close> segment, both joined paths lie within
  their roots. (On Windows \<^verbatim>\<open>path.join\<close> has the backslash as a second separator, and
  nothing is said here.)
\<close>

theorem served_file_is_at_joined_path:
  "(payload (static_request e meth u) = Contents data \<longrightarrow>
      meth \<noteq> js ''OPTIONS'' \<and> meth \<noteq> js ''HEAD'' \<and>
      (\<exists>reqPath.
         decodeURIComponent (request_path u) = Some reqPath \<and>
         ((reqPath = js ''/'' \<or> reqPath = js ''/editor.html'') \<and>
            fs e (path_join e (resolvedPluginPath e) (js ''editor.html'')) = Some (RegularFile data) \<or>
          reqPath = js ''/embedded-editor.html'' \<and>
            fs e (path_join e (resolvedPluginPath e) (js ''embedded-editor.html''))
              = Some (RegularFile data) \<or>
          reqPath \<notin> {js ''/api/createNew'', js ''/api/saveAs'', js ''/'', js ''/editor.html'',
                      js ''/embedded-editor.html''} \<and>
            fs e (path_join e (vaultPath e) (strip_slash reqPath)) = Some (RegularFile data) \<or>
          reqPath \<notin> {js ''/api/createNew'', js ''/api/saveAs'', js ''/'', js ''/editor.html'',
                      js ''/embedded-editor.html''} \<and>
            \<not> isFile e (path_join e (vaultPath e) (strip_slash reqPath)) \<and>
            fs e (path_join e (resolvedPluginPath e) (strip_slash reqPath))
              = Some (RegularFile data)))) \<and>
   (meth \<noteq> js ''OPTIONS'' \<and> meth \<noteq> js ''HEAD'' \<and>
    decodeURIComponent (request_path u) = Some r \<and>
    r \<notin> {js ''/api/createNew'', js ''/api/saveAs'', js ''/'', js ''/editor.html'',
          js ''/embedded-editor.html''} \<longrightarrow>
      (fs e (path_join e (vaultPath e) (strip_slash r)) = Some (RegularFile d) \<longrightarrow>
         static_request e meth u = \<lparr>code = 200, payload = Contents d\<rparr>) \<and>
      (\<not> isFile e (path_join e (vaultPath e) (strip_slash r)) \<and>
       fs e (path_join e (resolvedPluginPath e) (strip_slash r)) = Some (RegularFile d) \<longrightarrow>
         static_request e meth u = \<lparr>code = 200, payload = Contents d\<rparr>) \<and>
      (\<not> isFile e (path_join e (vaultPath e) (strip_slash r)) \<and>
       \<not> isFile e (path_join e (resolvedPluginPath e) (strip_slash r)) \<longrightarrow>
         static_request e meth u
           = \<lparr>code = 404,
              payload = Text (js ''File not found: '' @ path_join e (vaultPath e) (strip_slash r))\<rparr>)) \<and>
   (path_join e = posix_join \<and> js ''..'' \<notin> set (segments (strip_slash r)) \<longrightarrow>
      within (vaultPath e) (path_join e (vaultPath e) (strip_slash r)) \<and>
      within (resolvedPluginPath e) (path_join e (resolvedPluginPath e) (strip_slash r)))"
proof (intro conjI impI)
  assume c: "payload (static_request e meth u) = Contents data"
  then show "meth \<noteq> js ''OPTIONS''"
    by (auto simp: static_request_def)
  from c show "meth \<noteq> js ''HEAD''"
    by (auto simp: static_request_def split: if_splits)
  with c have "payload (handle_path e u) = Contents data"
    by (auto simp: static_request_def split: if_splits)
  from handle_path_contents [OF this] show "\<exists>reqPath.
         decodeURIComponent (request_path u) = Some reqPath \<and>
         ((reqPath = js ''/'' \<or> reqPath = js ''/editor.html'') \<and>
            fs e (path_join e (resolvedPluginPath e) (js ''editor.html'')) = Some (RegularFile data) \<or>
          reqPath = js ''/embedded-editor.html'' \<and>
            fs e (path_join e (resolvedPluginPath e) (js ''embedded-editor.html''))
              = Some (RegularFile data) \<or>
          reqPath \<notin> {js ''/api/createNew'', js ''/api/saveAs'', js ''/'', js ''/editor.html'',
                      js ''/embedded-editor.html''} \<and>
            fs e (path_join e (vaultPath e) (strip_slash reqPath)) = Some (RegularFile data) \<or>
          reqPath \<notin> {js ''/api/createNew'', js ''/api/saveAs'', js ''/'', js ''/editor.html'',
                      js ''/embedded-editor.html''} \<and>
            \<not> isFile e (path_join e (vaultPath e) (strip_slash reqPath)) \<and>
            fs e (path_join e (resolvedPluginPath e) (strip_slash reqPath))
              = Some (RegularFile data))"
    using serve_page_contents [of e _ data] serve_file_contents [of e _ data]
    by (elim exE conjE disjE; blast)
next
  assume a: "meth \<noteq> js ''OPTIONS'' \<and> meth \<noteq> js ''HEAD'' \<and>
    decodeURIComponent (request_path u) = Some r \<and>
    r \<notin> {js ''/api/createNew'', js ''/api/saveAs'', js ''/'', js ''/editor.html'',
          js ''/embedded-editor.html''}"
  then have s: "static_request e meth u = serve_file e r"
    using handle_path_file [of u r e] by (simp add: static_request_def)
  {
    assume "fs e (path_join e (vaultPath e) (strip_slash r)) = Some (RegularFile d)"
    then show "static_request e meth u = \<lparr>code = 200, payload = Contents d\<rparr>"
      by (simp add: s serve_file_vault)
  next
    assume "\<not> isFile e (path_join e (vaultPath e) (strip_slash r)) \<and>
       fs e (path_join e (resolvedPluginPath e) (strip_slash r)) = Some (RegularFile d)"
    then show "static_request e meth u = \<lparr>code = 200, payload = Contents d\<rparr>"
      by (simp add: s serve_file_plugin)
  next
    assume "\<not> isFile e (path_join e (vaultPath e) (strip_slash r)) \<and>
       \<not> isFile e (path_join e (resolvedPluginPath e) (strip_slash r))"
    then show "static_request e meth u
           = \<lparr>code = 404,
              payload = Text (js ''File not found: '' @ path_join e (vaultPath e) (strip_slash r))\<rparr>"
      by (simp add: s serve_file_missing)
  }
next
  assume p: "path_join e = posix_join \<and> js ''..'' \<notin> set (segments (strip_slash r))"
  then show "within (vaultPath e) (path_join e (vaultPath e) (strip_slash r))"
    by (simp add: within_posix_join)
  from p show "within (resolvedPluginPath e) (path_join e (resolvedPluginPath e) (strip_slash r))"
    by (simp add: within_posix_join)
qed
lemma decode_examples:
  "decodeURIComponent (request_path (js ''/Notes/report.docx?token=abc'')) = Some (js ''/Notes/report.docx'')"
  "decodeURIComponent (request_path (js ''/styles.css'')) = Some (js ''/styles.css'')"
  "decodeURIComponent (request_path (js ''/missing.txt'')) = Some (js ''/missing.txt'')"
  "decodeURIComponent (request_path (js ''/..%2Fsecret.txt'')) = Some (js ''/../secret.txt'')"
  by (simp_all add: request_path_def before_query_def decodeURIComponent_def hex_octet_def
        hex_value_def is_digit_def js_def)

lemma strip_examples:
  "strip_slash (js ''/Notes/report.docx'') = js ''Notes/report.docx''"
  "strip_slash (js ''/styles.css'') = js ''styles.css''"
  "strip_slash (js ''/missing.txt'') = js ''missing.txt''"
  "strip_slash (js ''/../secret.txt'') = js ''../secret.txt''"
  by (simp_all add: strip_slash_def startsWith_def js_def)

lemma location_examples:
  "location (js ''/home/u/vault'') = [js ''home'', js ''u'', js ''vault'']"
  "location (js ''/home/u/vault/.obsidian/plugins/onlyoffice'')
     = [js ''home'', js ''u'', js ''vault'', js ''.obsidian'', js ''plugins'', js ''onlyoffice'']"
  "location (js ''/home/u/vault/Notes/report.docx'')
     = [js ''home'', js ''u'', js ''vault'', js ''Notes'', js ''report.docx'']"
  "location (js ''/home/u/vault/styles.css'') = [js ''home'', js ''u'', js ''vault'', js ''styles.css'']"
  "location (js ''/home/u/vault/missing.txt'') = [js ''home'', js ''u'', js ''vault'', js ''missing.txt'']"
  "location (js ''/home/u/vault/../secret.txt'') = [js ''home'', js ''u'', js ''secret.txt'']"
  "location (js ''/home/u/secret.txt'') = [js ''home'', js ''u'', js ''secret.txt'']"
  "location (js ''/home/u/vault/.obsidian/plugins/onlyoffice/styles.css'')
     = [js ''home'', js ''u'', js ''vault'', js ''.obsidian'', js ''plugins'', js ''onlyoffice'',
        js ''styles.css'']"
  "location (js ''/home/u/vault/.obsidian/plugins/onlyoffice/missing.txt'')
     = [js ''home'', js ''u'', js ''vault'', js ''.obsidian'', js ''plugins'', js ''onlyoffice'',
        js ''missing.txt'']"
  "location (js ''/home/u/vault/.obsidian/plugins/onlyoffice/../secret.txt'')
     = [js ''home'', js ''u'', js ''vault'', js ''.obsidian'', js ''plugins'', js ''secret.txt'']"
  by (simp_all add: location_def segments_def push_segment_def isAbsolute_def startsWith_def js_def)

lemma joined_examples:
  "joined (js ''/home/u/vault'') (js ''Notes/report.docx'') = js ''/home/u/vault/Notes/report.docx''"
  "joined (js ''/home/u/vault'') (js ''styles.css'') = js ''/home/u/vault/styles.css''"
  "joined (js ''/home/u/vault'') (js ''missing.txt'') = js ''/home/u/vault/missing.txt''"
  "joined (js ''/home/u/vault'') (js ''../secret.txt'') = js ''/home/u/vault/../secret.txt''"
  "joined (js ''/home/u/vault/.obsidian/plugins/onlyoffice'') (js ''styles.css'')
     = js ''/home/u/vault/.obsidian/plugins/onlyoffice/styles.css''"
  "joined (js ''/home/u/vault/.obsidian/plugins/onlyoffice'') (js ''missing.txt'')
     = js ''/home/u/vault/.obsidian/plugins/onlyoffice/missing.txt''"
  "joined (js ''/home/u/vault/.obsidian/plugins/onlyoffice'') (js ''../secret.txt'')
     = js ''/home/u/vault/.obsidian/plugins/onlyoffice/../secret.txt''"
  by (simp_all add: joined_def js_def)

lemma posix_join_examples:
  "posix_join (js ''/home/u/vault'') (js ''Notes/report.docx'') = js ''/home/u/vault/Notes/report.docx''"
  "posix_join (js ''/home/u/vault'') (js ''styles.css'') = js ''/home/u/vault/styles.css''"
  "posix_join (js ''/home/u/vault'') (js ''missing.txt'') = js ''/home/u/vault/missing.txt''"
  "posix_join (js ''/home/u/vault'') (js ''../secret.txt'') = js ''/home/u/secret.txt''"
  "posix_join (js ''/home/u/vault/.obsidian/plugins/onlyoffice'') (js ''styles.css'')
     = js ''/home/u/vault/.obsidian/plugins/onlyoffice/styles.css''"
  "posix_join (js ''/home/u/vault/.obsidian/plugins/onlyoffice'') (js ''missing.txt'')
     = js ''/home/u/vault/.obsidian/plugins/onlyoffice/missing.txt''"
  "posix_join (js ''/home/u/vault/.obsidian/plugins/onlyoffice'') (js ''../secret.txt'')
     = js ''/home/u/vault/.obsidian/plugins/secret.txt''"
  by (simp_all add: posix_join_def joined_examples normalize_def location_examples)
     (simp_all add: isAbsolute_def startsWith_def js_def)

lemma home_paths:
  "vaultPath home_env = js ''/home/u/vault''"
  "resolvedPluginPath home_env = js ''/home/u/vault/.obsidian/plugins/onlyoffice''"
  "path_join home_env = posix_join"
  by (simp_all add: home_env_def)

lemma home_files:
  "fs home_env (js ''/home/u/vault/Notes/report.docx'') = Some (RegularFile [0x50, 0x4B])"
  "fs home_env (js ''/home/u/secret.txt'') = Some (RegularFile [0x73, 0x33])"
  "fs home_env (js ''/home/u/vault/.obsidian/plugins/onlyoffice/styles.css'')
     = Some (RegularFile [0x2F, 0x2A])"
  "fs home_env (js ''/home/u/vault/styles.css'') = None"
  "fs home_env (js ''/home/u/vault/missing.txt'') = None"
  "fs home_env (js ''/home/u/vault/.obsidian/plugins/onlyoffice/missing.txt'') = None"
  by (simp_all add: home_env_def js_def)

lemma file_paths:
  "js ''GET'' \<noteq> js ''OPTIONS''"
  "js ''GET'' \<noteq> js ''HEAD''"
  "js ''/Notes/report.docx'' \<notin> {js ''/api/createNew'', js ''/api/saveAs'', js ''/'', js ''/editor.html'',
      js ''/embedded-editor.html''}"
  "js ''/styles.css'' \<notin> {js ''/api/createNew'', js ''/api/saveAs'', js ''/'', js ''/editor.html'',
      js ''/embedded-editor.html''}"
  "js ''/missing.txt'' \<notin> {js ''/api/createNew'', js ''/api/saveAs'', js ''/'', js ''/editor.html'',
      js ''/embedded-editor.html''}"
  "js ''/../secret.txt'' \<notin> {js ''/api/createNew'', js ''/api/saveAs'', js ''/'', js ''/editor.html'',
      js ''/embedded-editor.html''}"
  by (simp_all add: js_def)

theorem served_file_is_at_joined_path_witness:
  "static_request home_env (js ''GET'') (js ''/Notes/report.docx?token=abc'')
     = \<lparr>code = 200, payload = Contents [0x50, 0x4B]\<rparr> \<and>
   static_request home_env (js ''GET'') (js ''/styles.css'')
     = \<lparr>code = 200, payload = Contents [0x2F, 0x2A]\<rparr> \<and>
   static_request home_env (js ''GET'') (js ''/missing.txt'')
     = \<lparr>code = 404, payload = Text (js ''File not found: /home/u/vault/missing.txt'')\<rparr> \<and>
   fs home_env (path_join home_env (vaultPath home_env) (js ''Notes/report.docx''))
     = Some (RegularFile [0x50, 0x4B]) \<and>
   \<not> isFile home_env (path_join home_env (vaultPath home_env) (js ''styles.css'')) \<and>
   fs home_env (path_join home_env (resolvedPluginPath home_env) (js ''styles.css''))
     = Some (RegularFile [0x2F, 0x2A]) \<and>
   within (vaultPath home_env) (path_join home_env (vaultPath home_env) (js ''Notes/report.docx'')) \<and>
   within (resolvedPluginPath home_env)
     (path_join home_env (resolvedPluginPath home_env) (js ''Notes/report.docx''))"
proof -
  have f: "fs home_env (path_join home_env (vaultPath home_env) (js ''Notes/report.docx''))
     = Some (RegularFile [0x50, 0x4B])"
    "\<not> isFile home_env (path_join home_env (vaultPath home_env) (js ''styles.css''))"
    "fs home_env (path_join home_env (resolvedPluginPath home_env) (js ''styles.css''))
     = Some (RegularFile [0x2F, 0x2A])"
    "\<not> isFile home_env (path_join home_env (vaultPath home_env) (js ''missing.txt''))"
    "\<not> isFile home_env (path_join home_env (resolvedPluginPath home_env) (js ''missing.txt''))"
    by (simp_all add: home_paths posix_join_examples home_files isFile_def)
  have n: "js ''..'' \<notin> set (segments (js ''Notes/report.docx''))"
    by (simp add: segments_def js_def)
  have m: "js ''File not found: '' @ js ''/home/u/vault/missing.txt''
             = js ''File not found: /home/u/vault/missing.txt''"
    by (simp add: js_def)
  have a: "static_request home_env (js ''GET'') (js ''/Notes/report.docx?token=abc'')
     = \<lparr>code = 200, payload = Contents [0x50, 0x4B]\<rparr>"
    using served_file_is_at_joined_path
            [where e = home_env and meth = "js ''GET''" and u = "js ''/Notes/report.docx?token=abc''"
               and r = "js ''/Notes/report.docx''" and d = "[0x50, 0x4B]"]
    by (simp only: decode_examples file_paths strip_examples f) simp
  have b: "static_request home_env (js ''GET'') (js ''/styles.css'')
     = \<lparr>code = 200, payload = Contents [0x2F, 0x2A]\<rparr>"
    using served_file_is_at_joined_path
            [where e = home_env and meth = "js ''GET''" and u = "js ''/styles.css''"
               and r = "js ''/styles.css''" and d = "[0x2F, 0x2A]"]
    by (simp only: decode_examples file_paths strip_examples f) simp
  have c: "static_request home_env (js ''GET'') (js ''/missing.txt'')
     = \<lparr>code = 404, payload = Text (js ''File not found: /home/u/vault/missing.txt'')\<rparr>"
    using served_file_is_at_joined_path
            [where e = home_env and meth = "js ''GET''" and u = "js ''/missing.txt''"
               and r = "js ''/missing.txt''"]
    by (simp only: decode_examples file_paths strip_examples f) (simp add: home_paths posix_join_examples m)
  have w: "within (vaultPath home_env) (path_join home_env (vaultPath home_env) (js ''Notes/report.docx'')) \<and>
   within (resolvedPluginPath home_env)
     (path_join home_env (resolvedPluginPath home_env) (js ''Notes/report.docx''))"
    using served_file_is_at_joined_path
            [where e = home_env and r = "js ''/Notes/report.docx''"]
    by (simp only: strip_examples home_paths n) simp
  from a b c f w show ?thesis
    by simp
qed

text \<open>
  Where the claim as written fails: the request \<^verbatim>\<open>GET /..%2Fsecret.txt\<close> decodes to
  \<^verbatim>\<open>/../secret.txt\<close>, which joined to the vault root \<^verbatim>\<open>/home/u/vault\<close> is
  \<^verbatim>\<open>/home/u/secret.txt\<close>, outside the vault and outside the plugin directory; the server
  answers 200 with the bytes of that file.
\<close>

theorem path_traversal_counterexample:
  "decodeURIComponent (request_path (js ''/..%2Fsecret.txt'')) = Some (js ''/../secret.txt'') \<and>
   path_join home_env (vaultPath home_env) (strip_slash (js ''/../secret.txt''))
     = js ''/home/u/secret.txt'' \<and>
   location (joined (vaultPath home_env) (strip_slash (js ''/../secret.txt'')))
     = [js ''home'', js ''u'', js ''secret.txt''] \<and>
   location (vaultPath home_env) = [js ''home'', js ''u'', js ''vault''] \<and>
   location (resolvedPluginPath home_env)
     = [js ''home'', js ''u'', js ''vault'', js ''.obsidian'', js ''plugins'', js ''onlyoffice''] \<and>
   \<not> within (vaultPath home_env) (js ''/home/u/secret.txt'') \<and>
   \<not> within (resolvedPluginPath home_env) (js ''/home/u/secret.txt'') \<and>
   fs home_env (js ''/home/u/secret.txt'') = Some (RegularFile [0x73, 0x33]) \<and>
   static_request home_env (js ''GET'') (js ''/..%2Fsecret.txt'')
     = \<lparr>code = 200, payload = Contents [0x73, 0x33]\<rparr>"
proof -
  have outside: "\<not> within (js ''/home/u/vault'') (js ''/home/u/secret.txt'')"
    "\<not> within (js ''/home/u/vault/.obsidian/plugins/onlyoffice'') (js ''/home/u/secret.txt'')"
    by (simp_all add: within_def location_examples) (simp_all add: js_def)
  have served: "static_request home_env (js ''GET'') (js ''/..%2Fsecret.txt'')
     = \<lparr>code = 200, payload = Contents [0x73, 0x33]\<rparr>"
    using file_paths
    by (simp add: static_request_def handle_path_def decode_examples serve_file_def strip_examples
          home_paths posix_join_examples home_files)
  show ?thesis
    by (simp add: decode_examples strip_examples home_paths posix_join_examples joined_examples
          location_examples outside home_files served)
qed

end
